theory Spec2Isabelle
  imports Complex_Main
begin

section \<open>JavaScript numbers\<close>

text \<open>
  The physics engine computes with JavaScript numbers. A number is modelled as a finite
  real or one of the three special values of the language; arithmetic on finite values is
  exact (no rounding, no overflow, no underflow, no signed zero), and the special values
  follow the rules of the language (\<open>Infinity - Infinity\<close> and \<open>0 * Infinity\<close> are \<open>NaN\<close>,
  every comparison with \<open>NaN\<close> is false, a finite nonzero value divided by zero is
  infinite). A double rounds every result, so a statement about the value of a computation
  is stated below only up to a margin, or for the structure of the computation, and with
  bounds on the inputs where a double would overflow, underflow or lose the digits that
  decide a comparison.
\<close>

datatype num = Fin real | PInf | NInf | NaN

instantiation num :: "{plus, minus, uminus, times, inverse}"
begin

fun uminus_num :: "num \<Rightarrow> num" where
  "uminus_num (Fin a) = Fin (- a)"
| "uminus_num PInf = NInf"
| "uminus_num NInf = PInf"
| "uminus_num NaN = NaN"

fun plus_num :: "num \<Rightarrow> num \<Rightarrow> num" where
  "plus_num (Fin a) (Fin b) = Fin (a + b)"
| "plus_num (Fin a) PInf = PInf"
| "plus_num (Fin a) NInf = NInf"
| "plus_num (Fin a) NaN = NaN"
| "plus_num PInf (Fin b) = PInf"
| "plus_num PInf PInf = PInf"
| "plus_num PInf NInf = NaN"
| "plus_num PInf NaN = NaN"
| "plus_num NInf (Fin b) = NInf"
| "plus_num NInf PInf = NaN"
| "plus_num NInf NInf = NInf"
| "plus_num NInf NaN = NaN"
| "plus_num NaN b = NaN"

definition minus_num :: "num \<Rightarrow> num \<Rightarrow> num" where
  "minus_num a b = a + (- b)"

fun times_num :: "num \<Rightarrow> num \<Rightarrow> num" where
  "times_num (Fin a) (Fin b) = Fin (a * b)"
| "times_num (Fin a) PInf = (if a = 0 then NaN else if 0 < a then PInf else NInf)"
| "times_num (Fin a) NInf = (if a = 0 then NaN else if 0 < a then NInf else PInf)"
| "times_num (Fin a) NaN = NaN"
| "times_num PInf (Fin b) = (if b = 0 then NaN else if 0 < b then PInf else NInf)"
| "times_num PInf PInf = PInf"
| "times_num PInf NInf = NInf"
| "times_num PInf NaN = NaN"
| "times_num NInf (Fin b) = (if b = 0 then NaN else if 0 < b then NInf else PInf)"
| "times_num NInf PInf = NInf"
| "times_num NInf NInf = PInf"
| "times_num NInf NaN = NaN"
| "times_num NaN b = NaN"

fun divide_num :: "num \<Rightarrow> num \<Rightarrow> num" where
  "divide_num (Fin a) (Fin b) =
     (if b = 0 then (if a = 0 then NaN else if 0 < a then PInf else NInf) else Fin (a / b))"
| "divide_num (Fin a) PInf = Fin 0"
| "divide_num (Fin a) NInf = Fin 0"
| "divide_num (Fin a) NaN = NaN"
| "divide_num PInf (Fin b) = (if 0 \<le> b then PInf else NInf)"
| "divide_num PInf PInf = NaN"
| "divide_num PInf NInf = NaN"
| "divide_num PInf NaN = NaN"
| "divide_num NInf (Fin b) = (if 0 \<le> b then NInf else PInf)"
| "divide_num NInf PInf = NaN"
| "divide_num NInf NInf = NaN"
| "divide_num NInf NaN = NaN"
| "divide_num NaN b = NaN"

definition inverse_num :: "num \<Rightarrow> num" where
  "inverse_num a = divide (Fin 1) a"

instance ..

end

text \<open>The comparison operators \<open><\<close>, \<open>>\<close>, \<open><=\<close> and the strict equality \<open>===\<close>.\<close>

fun js_lt :: "num \<Rightarrow> num \<Rightarrow> bool" where
  "js_lt (Fin a) (Fin b) = (a < b)"
| "js_lt (Fin a) PInf = True"
| "js_lt NInf (Fin b) = True"
| "js_lt NInf PInf = True"
| "js_lt a b = False"

definition js_gt :: "num \<Rightarrow> num \<Rightarrow> bool" where
  "js_gt a b = js_lt b a"

fun js_le :: "num \<Rightarrow> num \<Rightarrow> bool" where
  "js_le (Fin a) (Fin b) = (a \<le> b)"
| "js_le (Fin a) PInf = True"
| "js_le NInf (Fin b) = True"
| "js_le NInf PInf = True"
| "js_le PInf PInf = True"
| "js_le NInf NInf = True"
| "js_le a b = False"

definition js_ge :: "num \<Rightarrow> num \<Rightarrow> bool" where
  "js_ge a b = js_le b a"

definition js_eq :: "num \<Rightarrow> num \<Rightarrow> bool" where
  "js_eq a b = (a \<noteq> NaN \<and> a = b)"

fun isFinite :: "num \<Rightarrow> bool" where
  "isFinite (Fin a) = True"
| "isFinite a = False"

text \<open>\<open>a || b\<close> on numbers: zero and \<open>NaN\<close> are falsy.\<close>

definition js_or :: "num \<Rightarrow> num \<Rightarrow> num" where
  "js_or a b = (if a = Fin 0 \<or> a = NaN then b else a)"

text \<open>The functions of \<open>Math\<close> that the engine calls.\<close>

fun Math_abs :: "num \<Rightarrow> num" where
  "Math_abs (Fin a) = Fin \<bar>a\<bar>"
| "Math_abs PInf = PInf"
| "Math_abs NInf = PInf"
| "Math_abs NaN = NaN"

fun Math_sqrt :: "num \<Rightarrow> num" where
  "Math_sqrt (Fin a) = (if 0 \<le> a then Fin (sqrt a) else NaN)"
| "Math_sqrt PInf = PInf"
| "Math_sqrt NInf = NaN"
| "Math_sqrt NaN = NaN"

fun Math_sign :: "num \<Rightarrow> num" where
  "Math_sign (Fin a) = Fin (sgn a)"
| "Math_sign PInf = Fin 1"
| "Math_sign NInf = Fin (- 1)"
| "Math_sign NaN = NaN"

fun Math_cos :: "num \<Rightarrow> num" where
  "Math_cos (Fin a) = Fin (cos a)"
| "Math_cos a = NaN"

fun Math_sin :: "num \<Rightarrow> num" where
  "Math_sin (Fin a) = Fin (sin a)"
| "Math_sin a = NaN"

definition atan2_real :: "real \<Rightarrow> real \<Rightarrow> real" where
  "atan2_real b a =
     (if 0 < a then arctan (b / a)
      else if a < 0 then (if 0 \<le> b then arctan (b / a) + pi else arctan (b / a) - pi)
      else if 0 < b then pi / 2
      else if b < 0 then - (pi / 2)
      else 0)"

fun Math_atan2 :: "num \<Rightarrow> num \<Rightarrow> num" where
  "Math_atan2 (Fin b) (Fin a) = Fin (atan2_real b a)"
| "Math_atan2 (Fin b) PInf = Fin 0"
| "Math_atan2 (Fin b) NInf = (if 0 \<le> b then Fin pi else Fin (- pi))"
| "Math_atan2 PInf (Fin a) = Fin (pi / 2)"
| "Math_atan2 PInf PInf = Fin (pi / 4)"
| "Math_atan2 PInf NInf = Fin (3 * pi / 4)"
| "Math_atan2 NInf (Fin a) = Fin (- (pi / 2))"
| "Math_atan2 NInf PInf = Fin (- (pi / 4))"
| "Math_atan2 NInf NInf = Fin (- (3 * pi / 4))"
| "Math_atan2 b a = NaN"

text \<open>\<open>Math.pow(b, 1.5)\<close>, the only use of \<open>Math.pow\<close> in the engine.\<close>

fun Math_pow_1_5 :: "num \<Rightarrow> num" where
  "Math_pow_1_5 (Fin a) = (if 0 \<le> a then Fin (a powr 1.5) else NaN)"
| "Math_pow_1_5 PInf = PInf"
| "Math_pow_1_5 NInf = PInf"
| "Math_pow_1_5 NaN = NaN"

section \<open>Vector2D\<close>

datatype Vector2D = Vector2D (x_of: num) (y_of: num)

definition v_add :: "Vector2D \<Rightarrow> Vector2D \<Rightarrow> Vector2D" where
  "v_add u v = Vector2D (x_of u + x_of v) (y_of u + y_of v)"

definition v_sub :: "Vector2D \<Rightarrow> Vector2D \<Rightarrow> Vector2D" where
  "v_sub u v = Vector2D (x_of u - x_of v) (y_of u - y_of v)"

definition v_mul :: "Vector2D \<Rightarrow> num \<Rightarrow> Vector2D" where
  "v_mul u s = Vector2D (x_of u * s) (y_of u * s)"

definition v_div :: "Vector2D \<Rightarrow> num \<Rightarrow> Vector2D" where
  "v_div u s = (if js_eq s (Fin 0) then Vector2D (Fin 0) (Fin 0)
                else Vector2D (x_of u / s) (y_of u / s))"

definition magnitude :: "Vector2D \<Rightarrow> num" where
  "magnitude u = Math_sqrt (x_of u * x_of u + y_of u * y_of u)"

definition v_normalize :: "Vector2D \<Rightarrow> Vector2D" where
  "v_normalize u = (let mag = magnitude u in
     if js_eq mag (Fin 0) then Vector2D (Fin 0) (Fin 0) else v_div u mag)"

definition dot :: "Vector2D \<Rightarrow> Vector2D \<Rightarrow> num" where
  "dot u v = x_of u * x_of v + y_of u * y_of v"

definition perpendicular :: "Vector2D \<Rightarrow> Vector2D" where
  "perpendicular u = Vector2D (- y_of u) (x_of u)"

definition lerp :: "Vector2D \<Rightarrow> Vector2D \<Rightarrow> num \<Rightarrow> Vector2D" where
  "lerp u v t = Vector2D (x_of u + (x_of v - x_of u) * t) (y_of u + (y_of v - y_of u) * t)"

definition distanceTo :: "Vector2D \<Rightarrow> Vector2D \<Rightarrow> num" where
  "distanceTo u v = (let dx = x_of u - x_of v; dy = y_of u - y_of v in
     Math_sqrt (dx * dx + dy * dy))"

text \<open>\<open>Vector2D.fromObject\<close> reads \<open>obj.x || 0\<close> and \<open>obj.y || 0\<close>.\<close>

definition fromObject :: "Vector2D \<Rightarrow> Vector2D" where
  "fromObject obj = Vector2D (js_or (x_of obj) (Fin 0)) (js_or (y_of obj) (Fin 0))"

section \<open>Data model\<close>

text \<open>
  An evaluator is a function of the equation object. It may raise an exception or return
  any number, finite or not; a JavaScript function that may raise is a function into
  \<open>js_error + 'a\<close>, and \<open>try { body } catch (e) { handler }\<close> is \<open>try_catch\<close>.
\<close>

datatype js_error = Thrown

type_synonym 'a js = "js_error + 'a"

definition try_catch :: "'a js \<Rightarrow> 'a js \<Rightarrow> 'a js" where
  "try_catch body handler = (case body of Inl e \<Rightarrow> handler | Inr v \<Rightarrow> Inr v)"

definition js_bind :: "'a js \<Rightarrow> ('a \<Rightarrow> 'b js) \<Rightarrow> 'b js" where
  "js_bind m f = (case m of Inl e \<Rightarrow> Inl e | Inr v \<Rightarrow> f v)"

text \<open>
  The equation objects that the parser builds, by their \<open>type\<close> field: \<open>explicit_y\<close>,
  \<open>piecewise\<close>, \<open>constant_y\<close> (whose \<open>evaluate\<close> returns \<open>this.value\<close>), \<open>explicit_x\<close>,
  \<open>constant_x\<close>, \<open>implicit\<close> (\<open>evaluate(x, y)\<close>), \<open>polar\<close>, \<open>parametric\<close> (\<open>evaluateX\<close> and
  \<open>evaluateY\<close>), \<open>inequality\<close>, and any other value of \<open>type\<close>.
\<close>

datatype equation =
    ExplicitY "num \<Rightarrow> num js"
  | Piecewise "num \<Rightarrow> num js"
  | ConstantY num
  | ExplicitX "num \<Rightarrow> num js"
  | ConstantX num
  | Implicit "num \<Rightarrow> num \<Rightarrow> num js"
  | Polar "num \<Rightarrow> num js"
  | Parametric "num \<Rightarrow> num js" "num \<Rightarrow> num js"
  | Inequality
  | OtherType

text \<open>\<open>equation.evaluate(v)\<close> of the one-argument kinds; the engine calls it on no other kind.\<close>

fun evaluate :: "equation \<Rightarrow> num \<Rightarrow> num js" where
  "evaluate (ExplicitY f) v = f v"
| "evaluate (Piecewise f) v = f v"
| "evaluate (ConstantY c) v = Inr c"
| "evaluate (ExplicitX f) v = f v"
| "evaluate (ConstantX c) v = Inr c"
| "evaluate (Polar f) v = f v"
| "evaluate e v = Inl Thrown"

fun evaluate2 :: "equation \<Rightarrow> num \<Rightarrow> num \<Rightarrow> num js" where
  "evaluate2 (Implicit f) u v = f u v"
| "evaluate2 e u v = Inl Thrown"

fun evaluateX :: "equation \<Rightarrow> num \<Rightarrow> num js" where
  "evaluateX (Parametric f g) t = f t"
| "evaluateX e t = Inl Thrown"

fun evaluateY :: "equation \<Rightarrow> num \<Rightarrow> num js" where
  "evaluateY (Parametric f g) t = g t"
| "evaluateY e t = Inl Thrown"

text \<open>The configurable constants of \<open>PhysicsEngine\<close> and their defaults.\<close>

record engine =
  gravity :: num
  timeScale :: num
  rollingFriction :: num
  airDrag :: num
  snapDistance :: num
  snapStrength :: num
  detachThreshold :: num
  maxSlopeAngle :: num
  bounceCoefficient :: num
  minVelocity :: num
  derivativeStep :: num
  searchResolution :: num

definition default_engine :: engine where
  "default_engine = \<lparr> gravity = Fin (- 9.8), timeScale = Fin 0.016,
     rollingFriction = Fin 0.02, airDrag = Fin 0.01, snapDistance = Fin 0.5,
     snapStrength = Fin 0.4, detachThreshold = Fin 0.3, maxSlopeAngle = Fin (pi / 3),
     bounceCoefficient = Fin 0.6, minVelocity = Fin 0.001, derivativeStep = Fin 0.001,
     searchResolution = Fin 0.05 \<rparr>"

text \<open>
  The marble. \<open>maxTrailLength\<close> is the number that the configuration gives, or 30 when it
  gives none; the constructor does not check it.
\<close>

record marble =
  position :: Vector2D
  velocity :: Vector2D
  radius :: num
  onPath :: bool
  currentEquation :: "equation option"
  trail :: "Vector2D list"
  maxTrailLength :: num
  active :: bool

record marble_config =
  cfg_vx :: "num option"
  cfg_vy :: "num option"
  cfg_radius :: "num option"
  cfg_maxTrailLength :: "num option"

definition Marble :: "num \<Rightarrow> num \<Rightarrow> marble_config \<Rightarrow> marble" where
  "Marble px py config = \<lparr> position = Vector2D px py,
     velocity = Vector2D (case cfg_vx config of None \<Rightarrow> Fin 0.1 | Some v \<Rightarrow> v)
                         (case cfg_vy config of None \<Rightarrow> Fin 0 | Some v \<Rightarrow> v),
     radius = (case cfg_radius config of None \<Rightarrow> Fin 0.2 | Some r \<Rightarrow> r),
     onPath = False, currentEquation = None, trail = [],
     maxTrailLength = (case cfg_maxTrailLength config of None \<Rightarrow> Fin 30 | Some n \<Rightarrow> n),
     active = True \<rparr>"

definition reset :: "marble \<Rightarrow> num \<Rightarrow> num \<Rightarrow> marble" where
  "reset m px py = m\<lparr> position := Vector2D px py, velocity := Vector2D (Fin 0.1) (Fin 0),
     onPath := False, currentEquation := None, trail := [], active := True \<rparr>"

text \<open>
  The loop \<open>while (this.trail.length > this.maxTrailLength) this.trail.shift()\<close> of
  \<open>updateTrail\<close>. \<open>shift\<close> leaves an empty array empty, so the loop need not end: the value
  \<open>None\<close> stands for a call that never returns.
\<close>

partial_function (option) trimTrail :: "num \<Rightarrow> Vector2D list \<Rightarrow> Vector2D list option" where
  "trimTrail cap t =
     (if js_gt (Fin (real (length t))) cap then trimTrail cap (tl t) else Some t)"

definition updateTrail :: "marble \<Rightarrow> marble option" where
  "updateTrail m =
     (case trimTrail (maxTrailLength m) (trail m @ [position m]) of
        None \<Rightarrow> None
      | Some t \<Rightarrow> Some (m\<lparr> trail := t \<rparr>))"

record star =
  star_x :: num
  star_y :: num
  star_radius :: num
  collected :: bool

record pathInfo =
  equation :: equation
  closestPoint :: Vector2D
  distance :: num
  tangent :: Vector2D
  normal :: Vector2D
  curvature :: num

record update_result =
  starsCollected :: "star list"
  outOfBounds :: bool
  detached :: bool
  attached :: bool

section \<open>Path-following and free-fall physics\<close>

definition updateOnPath :: "engine \<Rightarrow> marble \<Rightarrow> pathInfo \<Rightarrow> num \<Rightarrow> marble" where
  "updateOnPath eng m info dt =
     (let targetPosition = Vector2D (x_of (closestPoint info)) (y_of (closestPoint info));
          position1 = lerp (position m) targetPosition (snapStrength eng);
          tangentUnit = v_normalize (tangent info);
          normalUnit = v_normalize (normal info);
          tangentSpeed0 = dot (velocity m) tangentUnit;
          gravityVector = Vector2D (Fin 0) (gravity eng);
          gravityAlongTangent = dot gravityVector tangentUnit;
          tangentSpeed1 = tangentSpeed0 + gravityAlongTangent * dt;
          frictionForce = (- Math_sign tangentSpeed1) * rollingFriction eng * Math_abs (gravity eng);
          tangentSpeed2 =
            (if js_lt (Math_abs (frictionForce * dt)) (Math_abs tangentSpeed1)
             then tangentSpeed1 + frictionForce * dt
             else tangentSpeed1 * Fin 0.9);
          preferRight = (js_lt (x_of tangentUnit) (Fin 0) \<and> js_lt (Math_abs tangentSpeed2) (Fin 0.1));
          effectiveTangent = (if preferRight then v_mul tangentUnit (Fin (- 1)) else tangentUnit);
          tangentSpeed3 = (if preferRight then Math_abs tangentSpeed2 else tangentSpeed2);
          velocity1 = v_mul effectiveTangent tangentSpeed3;
          distanceFromPath = distanceTo position1 targetPosition;
          velocity2 =
            (if js_gt distanceFromPath (Fin 0.01)
             then v_add velocity1 (v_mul normalUnit ((- distanceFromPath) * Fin 0.5))
             else velocity1)
      in m\<lparr> position := position1, velocity := velocity2 \<rparr>)"

definition shouldAttachToPath :: "marble \<Rightarrow> pathInfo \<Rightarrow> bool" where
  "shouldAttachToPath m info =
     (let normalSpeed = Math_abs (dot (velocity m) (v_normalize (normal info)));
          tangentSpeed = Math_abs (dot (velocity m) (v_normalize (tangent info)))
      in if js_gt tangentSpeed (normalSpeed * Fin 0.5) \<or> js_lt (distance info) (Fin 0.1) then True
         else (let toPath = v_normalize (Vector2D (x_of (closestPoint info) - x_of (position m))
                                                  (y_of (closestPoint info) - y_of (position m)));
                   approachSpeed = dot (velocity m) toPath
               in if js_gt approachSpeed (Fin 0) then True else False))"

definition shouldDetachFromPath :: "engine \<Rightarrow> marble \<Rightarrow> pathInfo \<Rightarrow> bool" where
  "shouldDetachFromPath eng m info =
     (let slopeAngle = Math_atan2 (Math_abs (y_of (tangent info))) (Math_abs (x_of (tangent info)))
      in if js_gt slopeAngle (maxSlopeAngle eng) \<and> js_lt (magnitude (velocity m)) (detachThreshold eng)
         then True
         else (let curv = js_or (curvature info) (Fin 0)
               in if \<not> js_eq curv (Fin 0)
                  then (let speed = magnitude (velocity m);
                            centripetalRequired = speed * speed * Math_abs curv;
                            normalForce = Math_abs (gravity eng * Math_cos slopeAngle)
                        in if js_gt centripetalRequired (normalForce * Fin 2) then True else False)
                  else False))"

definition updateInAir :: "engine \<Rightarrow> marble \<Rightarrow> num \<Rightarrow> marble" where
  "updateInAir eng m dt =
     (let velocity1 = Vector2D (x_of (velocity m)) (y_of (velocity m) + gravity eng * dt);
          speed = magnitude velocity1
      in if js_gt speed (Fin 0)
         then (let dragMagnitude = airDrag eng * speed * speed;
                   dragForce = v_mul (v_normalize velocity1) (- dragMagnitude)
               in m\<lparr> velocity := v_add velocity1 (v_mul dragForce dt) \<rparr>)
         else m\<lparr> velocity := velocity1 \<rparr>)"

definition checkCollision :: "marble \<Rightarrow> star \<Rightarrow> bool" where
  "checkCollision m s =
     (let dx = x_of (position m) - star_x s;
          dy = y_of (position m) - star_y s;
          distanceSq = dx * dx + dy * dy;
          radiusSum = radius m + star_radius s
      in js_lt distanceSq (radiusSum * radiusSum))"

section \<open>Numerical methods\<close>

definition phi :: num where
  "phi = (Fin 1 + Math_sqrt (Fin 5)) / Fin 2"

definition tolerance :: num where
  "tolerance = Fin 0.001"

text \<open>The closure \<open>distanceAt\<close> of \<open>findClosestXOnCurve\<close> and of \<open>findClosestYOnCurve\<close>.\<close>

definition distanceAtX :: "Vector2D \<Rightarrow> equation \<Rightarrow> num \<Rightarrow> num js" where
  "distanceAtX pos eq x =
     try_catch
       (js_bind (evaluate eq x) (\<lambda>y.
          if \<not> isFinite y then Inr PInf else Inr (distanceTo pos (Vector2D x y))))
       (Inr PInf)"

definition distanceAtY :: "Vector2D \<Rightarrow> equation \<Rightarrow> num \<Rightarrow> num js" where
  "distanceAtY pos eq y =
     try_catch
       (js_bind (evaluate eq y) (\<lambda>x.
          if \<not> isFinite x then Inr PInf else Inr (distanceTo pos (Vector2D x y))))
       (Inr PInf)"

text \<open>
  The \<open>while\<close> loop of the golden-section search, the same in both functions; it returns
  the final \<open>a\<close>, \<open>b\<close> and \<open>iterations\<close>.
\<close>

function goldenLoop ::
  "(num \<Rightarrow> num js) \<Rightarrow> num \<Rightarrow> num \<Rightarrow> num \<Rightarrow> num \<Rightarrow> nat \<Rightarrow> (num \<times> num \<times> nat) js" where
  "goldenLoop distanceAt a b c d iterations =
     (if js_gt (Math_abs (b - a)) tolerance \<and> iterations < 50
      then (case distanceAt c of Inl e \<Rightarrow> Inl e
            | Inr dc \<Rightarrow>
               (case distanceAt d of Inl e \<Rightarrow> Inl e
                | Inr dd \<Rightarrow>
                   (if js_lt dc dd
                    then goldenLoop distanceAt a d (d - (d - a) / phi) (a + (d - a) / phi)
                           (iterations + 1)
                    else goldenLoop distanceAt c b (b - (b - c) / phi) (c + (b - c) / phi)
                           (iterations + 1))))
      else Inr (a, b, iterations))"
  by pat_completeness auto
termination
  by (relation "measure (\<lambda>(distanceAt, a, b, c, d, iterations). 50 - iterations)") auto

declare goldenLoop.simps [simp del]

definition findClosestXOnCurve :: "Vector2D \<Rightarrow> equation \<Rightarrow> num \<Rightarrow> num \<Rightarrow> num js" where
  "findClosestXOnCurve pos eq xMin xMax =
     js_bind (goldenLoop (distanceAtX pos eq) xMin xMax
                (xMax - (xMax - xMin) / phi) (xMin + (xMax - xMin) / phi) 0)
       (\<lambda>(a, b, iterations). Inr ((a + b) / Fin 2))"

definition findClosestYOnCurve :: "Vector2D \<Rightarrow> equation \<Rightarrow> num \<Rightarrow> num \<Rightarrow> num js" where
  "findClosestYOnCurve pos eq yMin yMax =
     js_bind (goldenLoop (distanceAtY pos eq) yMin yMax
                (yMax - (yMax - yMin) / phi) (yMin + (yMax - yMin) / phi) 0)
       (\<lambda>(a, b, iterations). Inr ((a + b) / Fin 2))"

text \<open>
  The derivative routines. Their optional argument \<open>h\<close> is never passed, so the step is
  \<open>this.derivativeStep\<close>.
\<close>

definition calculateDerivative :: "engine \<Rightarrow> equation \<Rightarrow> num \<Rightarrow> num js" where
  "calculateDerivative eng eq x =
     (let step = derivativeStep eng in
      try_catch
        (js_bind (evaluate eq (x - step)) (\<lambda>y1.
         js_bind (evaluate eq (x + step)) (\<lambda>y2.
           if \<not> isFinite y1 \<or> \<not> isFinite y2 then Inr (Fin 0)
           else Inr ((y2 - y1) / (Fin 2 * step)))))
        (Inr (Fin 0)))"

definition calculateSecondDerivative :: "engine \<Rightarrow> equation \<Rightarrow> num \<Rightarrow> num js" where
  "calculateSecondDerivative eng eq x =
     (let step = derivativeStep eng in
      try_catch
        (js_bind (evaluate eq (x - step)) (\<lambda>y0.
         js_bind (evaluate eq x) (\<lambda>y1.
         js_bind (evaluate eq (x + step)) (\<lambda>y2.
           if \<not> isFinite y0 \<or> \<not> isFinite y1 \<or> \<not> isFinite y2 then Inr (Fin 0)
           else Inr ((y0 - Fin 2 * y1 + y2) / (step * step))))))
        (Inr (Fin 0)))"

definition calculateDerivativeX :: "engine \<Rightarrow> equation \<Rightarrow> num \<Rightarrow> num js" where
  "calculateDerivativeX eng eq y =
     (let step = derivativeStep eng in
      try_catch
        (js_bind (evaluate eq (y - step)) (\<lambda>x1.
         js_bind (evaluate eq (y + step)) (\<lambda>x2.
           if \<not> isFinite x1 \<or> \<not> isFinite x2 then Inr (Fin 0)
           else Inr ((x2 - x1) / (Fin 2 * step)))))
        (Inr (Fin 0)))"

definition calculateSecondDerivativeX :: "engine \<Rightarrow> equation \<Rightarrow> num \<Rightarrow> num js" where
  "calculateSecondDerivativeX eng eq y =
     (let step = derivativeStep eng in
      try_catch
        (js_bind (evaluate eq (y - step)) (\<lambda>x0.
         js_bind (evaluate eq y) (\<lambda>x1.
         js_bind (evaluate eq (y + step)) (\<lambda>x2.
           if \<not> isFinite x0 \<or> \<not> isFinite x1 \<or> \<not> isFinite x2 then Inr (Fin 0)
           else Inr ((x0 - Fin 2 * x1 + x2) / (step * step))))))
        (Inr (Fin 0)))"

definition calculateGradient :: "engine \<Rightarrow> equation \<Rightarrow> num \<Rightarrow> num \<Rightarrow> Vector2D js" where
  "calculateGradient eng eq x y =
     (let step = derivativeStep eng in
      try_catch
        (js_bind (evaluate2 eq (x + step) y) (\<lambda>fxp.
         js_bind (evaluate2 eq (x - step) y) (\<lambda>fxm.
         js_bind (evaluate2 eq x (y + step)) (\<lambda>fyp.
         js_bind (evaluate2 eq x (y - step)) (\<lambda>fym.
           (let dfdx = (fxp - fxm) / (Fin 2 * step);
                dfdy = (fyp - fym) / (Fin 2 * step)
            in if \<not> isFinite dfdx \<or> \<not> isFinite dfdy then Inr (Vector2D (Fin 0) (Fin 1))
               else Inr (Vector2D dfdx dfdy)))))))
        (Inr (Vector2D (Fin 0) (Fin 1))))"

text \<open>
  The curvature of an implicit curve. The evaluator is a function, so each of the nine
  points is evaluated once here although the source evaluates some of them twice.
\<close>

definition calculateImplicitCurvature :: "engine \<Rightarrow> equation \<Rightarrow> num \<Rightarrow> num \<Rightarrow> num js" where
  "calculateImplicitCurvature eng eq x y =
     (let h = derivativeStep eng in
      try_catch
        (js_bind (evaluate2 eq (x + h) y) (\<lambda>fxp.
         js_bind (evaluate2 eq (x - h) y) (\<lambda>fxm.
         js_bind (evaluate2 eq x (y + h)) (\<lambda>fyp.
         js_bind (evaluate2 eq x (y - h)) (\<lambda>fym.
         js_bind (evaluate2 eq x y) (\<lambda>f0.
         js_bind (evaluate2 eq (x + h) (y + h)) (\<lambda>fpp.
         js_bind (evaluate2 eq (x + h) (y - h)) (\<lambda>fpm.
         js_bind (evaluate2 eq (x - h) (y + h)) (\<lambda>fmp.
         js_bind (evaluate2 eq (x - h) (y - h)) (\<lambda>fmm.
           (let fx = (fxp - fxm) / (Fin 2 * h);
                fy = (fyp - fym) / (Fin 2 * h);
                fxx = (fxp - Fin 2 * f0 + fxm) / (h * h);
                fyy = (fyp - Fin 2 * f0 + fym) / (h * h);
                fxy = (fpp - fpm - fmp + fmm) / (Fin 4 * h * h);
                n = Math_abs (fx * fx * fyy - Fin 2 * fx * fy * fxy + fy * fy * fxx);
                den = Math_pow_1_5 (fx * fx + fy * fy)
            in if js_eq den (Fin 0) then Inr (Fin 0) else Inr (n / den))))))))))))
        (Inr (Fin 0)))"

text \<open>
  The gradient descent of \<open>findClosestPointImplicit\<close>. One run of the loop body returns
  from the function, leaves the loop, or goes on with new coordinates; an exception in the
  body leaves the loop. The loop returns the point and the final value of \<open>i\<close>.
\<close>

datatype descent_step = Return Vector2D | Break | Continue num num

definition descentBody :: "engine \<Rightarrow> equation \<Rightarrow> num \<Rightarrow> num \<Rightarrow> descent_step js" where
  "descentBody eng eq x y =
     (let stepSize = Fin 0.1 in
      try_catch
        (js_bind (evaluate2 eq x y) (\<lambda>f.
           if js_lt (Math_abs f) (Fin 0.01) then Inr (Return (Vector2D x y))
           else js_bind (calculateGradient eng eq x y) (\<lambda>grad.
             (let gradMag = magnitude grad
              in if js_lt gradMag (Fin 0.001) then Inr Break
                 else (let step = f / (gradMag * gradMag)
                       in Inr (Continue (x - x_of grad * step * stepSize)
                                        (y - y_of grad * step * stepSize)))))))
        (Inr Break))"

function descentLoop ::
  "engine \<Rightarrow> equation \<Rightarrow> nat \<Rightarrow> num \<Rightarrow> num \<Rightarrow> (Vector2D \<times> nat) js" where
  "descentLoop eng eq i x y =
     (if i < 20
      then (case descentBody eng eq x y of Inl e \<Rightarrow> Inl e
            | Inr (Return p) \<Rightarrow> Inr (p, i)
            | Inr Break \<Rightarrow> Inr (Vector2D x y, i)
            | Inr (Continue x' y') \<Rightarrow> descentLoop eng eq (i + 1) x' y')
      else Inr (Vector2D x y, i))"
  by pat_completeness auto
termination
  by (relation "measure (\<lambda>(eng, eq, i, x, y). 20 - i)") auto

declare descentLoop.simps [simp del]

definition findClosestPointImplicit :: "engine \<Rightarrow> Vector2D \<Rightarrow> equation \<Rightarrow> Vector2D js" where
  "findClosestPointImplicit eng pos eq =
     js_bind (descentLoop eng eq 0 (x_of pos) (y_of pos)) (\<lambda>(p, i). Inr p)"

text \<open>
  The sampling loops \<open>for (v = lo; v <= hi; v += 0.05)\<close> of the polar and the parametric
  analysis, over a state that the body updates; the loop returns the state and the final
  value of the loop variable.
\<close>

function scanLoop :: "(num \<Rightarrow> 's \<Rightarrow> 's js) \<Rightarrow> real \<Rightarrow> real \<Rightarrow> 's \<Rightarrow> ('s \<times> real) js" where
  "scanLoop body v hi st =
     (if v \<le> hi
      then (case body (Fin v) st of Inl e \<Rightarrow> Inl e
            | Inr st' \<Rightarrow> scanLoop body (v + 0.05) hi st')
      else Inr (st, v))"
  by pat_completeness auto
termination
proof (relation "measure (\<lambda>(body, v, hi, st). nat (\<lfloor>(hi - v) / 0.05\<rfloor> + 1))", goal_cases)
  case 1
  show ?case by simp
next
  case (2 body v hi st x2)
  define z where "z = (hi - v) / 0.05"
  have e: "(hi - (v + 0.05)) / 0.05 = z - 1"
    unfolding z_def by (simp add: field_simps)
  have nn: "0 \<le> \<lfloor>z\<rfloor>"
    using 2(1) unfolding z_def by simp
  have "nat (\<lfloor>z - 1\<rfloor> + 1) < nat (\<lfloor>z\<rfloor> + 1)"
    using nn by simp
  then show ?case
    unfolding in_measure prod.case e z_def [symmetric] .
qed

declare scanLoop.simps [simp del]

section \<open>Curve analysis\<close>

definition analyzeExplicitY :: "engine \<Rightarrow> Vector2D \<Rightarrow> equation \<Rightarrow> pathInfo option js" where
  "analyzeExplicitY eng pos eq =
     js_bind (findClosestXOnCurve pos eq (x_of pos - Fin 3) (x_of pos + Fin 3)) (\<lambda>closestX.
       try_catch
         (js_bind (evaluate eq closestX) (\<lambda>y.
            if \<not> isFinite y then Inr None
            else (let cp = Vector2D closestX y;
                      dist = distanceTo pos (fromObject cp)
                  in js_bind (calculateDerivative eng eq closestX) (\<lambda>derivative.
                       (let tang = v_normalize (Vector2D (Fin 1) derivative);
                            norm = perpendicular tang
                        in js_bind (calculateSecondDerivative eng eq closestX) (\<lambda>secondDerivative.
                             (let curv = Math_abs secondDerivative
                                           / Math_pow_1_5 (Fin 1 + derivative * derivative)
                              in Inr (Some \<lparr> equation = eq, closestPoint = cp, distance = dist,
                                     tangent = tang, normal = norm, curvature = curv \<rparr>))))))))
         (Inr None))"

definition analyzeExplicitX :: "engine \<Rightarrow> Vector2D \<Rightarrow> equation \<Rightarrow> pathInfo option js" where
  "analyzeExplicitX eng pos eq =
     js_bind (findClosestYOnCurve pos eq (y_of pos - Fin 3) (y_of pos + Fin 3)) (\<lambda>closestY.
       try_catch
         (js_bind (evaluate eq closestY) (\<lambda>x.
            if \<not> isFinite x then Inr None
            else (let cp = Vector2D x closestY;
                      dist = distanceTo pos (fromObject cp)
                  in js_bind (calculateDerivativeX eng eq closestY) (\<lambda>dxdy.
                       (let tang = v_normalize (Vector2D dxdy (Fin 1));
                            norm = perpendicular tang
                        in js_bind (calculateSecondDerivativeX eng eq closestY) (\<lambda>secondDerivative.
                             (let curv = Math_abs secondDerivative
                                           / Math_pow_1_5 (Fin 1 + dxdy * dxdy)
                              in Inr (Some \<lparr> equation = eq, closestPoint = cp, distance = dist,
                                     tangent = tang, normal = norm, curvature = curv \<rparr>))))))))
         (Inr None))"

definition analyzeImplicit :: "engine \<Rightarrow> Vector2D \<Rightarrow> equation \<Rightarrow> pathInfo option js" where
  "analyzeImplicit eng pos eq =
     js_bind (findClosestPointImplicit eng pos eq) (\<lambda>cp.
       (let dist = distanceTo pos (fromObject cp)
        in js_bind (calculateGradient eng eq (x_of cp) (y_of cp)) (\<lambda>gradient.
             (let norm = v_normalize gradient;
                  tang = perpendicular norm
              in js_bind (calculateImplicitCurvature eng eq (x_of cp) (y_of cp)) (\<lambda>curv.
                   Inr (Some \<lparr> equation = eq, closestPoint = cp, distance = dist,
                          tangent = tang, normal = norm, curvature = curv \<rparr>))))))"

text \<open>
  The polar analysis. The state of its scan is \<open>(closestTheta, minDistance)\<close>. The scan
  runs from \<open>marbleTheta - Math.PI\<close>; \<open>marbleTheta\<close> is a result of \<open>Math.atan2\<close>, hence
  finite or \<open>NaN\<close>, and with \<open>NaN\<close> the loop condition is false at once.
\<close>

definition polarBody :: "Vector2D \<Rightarrow> equation \<Rightarrow> num \<Rightarrow> num \<times> num \<Rightarrow> (num \<times> num) js" where
  "polarBody pos eq theta st =
     (case st of (closestTheta, minDistance) \<Rightarrow>
        try_catch
          (js_bind (evaluate eq theta) (\<lambda>r.
             if \<not> isFinite r then Inr (closestTheta, minDistance)
             else (let x = r * Math_cos theta;
                       y = r * Math_sin theta;
                       dist = distanceTo pos (Vector2D x y)
                   in if js_lt dist minDistance then Inr (theta, dist)
                      else Inr (closestTheta, minDistance))))
          (Inr (closestTheta, minDistance)))"

definition polarScan :: "Vector2D \<Rightarrow> equation \<Rightarrow> num \<Rightarrow> (num \<times> num) js" where
  "polarScan pos eq marbleTheta =
     (case (marbleTheta - Fin pi, marbleTheta + Fin pi) of
        (Fin lo, Fin hi) \<Rightarrow>
          js_bind (scanLoop (polarBody pos eq) lo hi (marbleTheta, PInf)) (\<lambda>(st, v). Inr st)
      | _ \<Rightarrow> Inr (marbleTheta, PInf))"

definition analyzePolar :: "engine \<Rightarrow> Vector2D \<Rightarrow> equation \<Rightarrow> pathInfo option js" where
  "analyzePolar eng pos eq =
     (let marbleTheta = Math_atan2 (y_of pos) (x_of pos) in
      js_bind (polarScan pos eq marbleTheta) (\<lambda>(closestTheta, minDistance).
        try_catch
          (js_bind (evaluate eq closestTheta) (\<lambda>r.
             (let cp = Vector2D (r * Math_cos closestTheta) (r * Math_sin closestTheta)
              in js_bind (evaluate eq (closestTheta + Fin 0.01)) (\<lambda>rp.
                 js_bind (evaluate eq (closestTheta - Fin 0.01)) (\<lambda>rm.
                   (let drdt = (rp - rm) / Fin 0.02;
                        dxdt = drdt * Math_cos closestTheta - r * Math_sin closestTheta;
                        dydt = drdt * Math_sin closestTheta + r * Math_cos closestTheta;
                        tang = v_normalize (Vector2D dxdt dydt);
                        norm = perpendicular tang
                    in Inr (Some \<lparr> equation = eq, closestPoint = cp, distance = minDistance,
                           tangent = tang, normal = norm, curvature = Fin 0 \<rparr>)))))))
          (Inr None)))"

text \<open>The parametric analysis; the state of its scan is \<open>(closestT, minDistance)\<close>.\<close>

definition parametricBody ::
  "Vector2D \<Rightarrow> equation \<Rightarrow> num \<Rightarrow> num \<times> num \<Rightarrow> (num \<times> num) js" where
  "parametricBody pos eq t st =
     (case st of (closestT, minDistance) \<Rightarrow>
        try_catch
          (js_bind (evaluateX eq t) (\<lambda>x.
           js_bind (evaluateY eq t) (\<lambda>y.
             if \<not> isFinite x \<or> \<not> isFinite y then Inr (closestT, minDistance)
             else (let dist = distanceTo pos (Vector2D x y)
                   in if js_lt dist minDistance then Inr (t, dist)
                      else Inr (closestT, minDistance)))))
          (Inr (closestT, minDistance)))"

definition analyzeParametric :: "engine \<Rightarrow> Vector2D \<Rightarrow> equation \<Rightarrow> pathInfo option js" where
  "analyzeParametric eng pos eq =
     js_bind (scanLoop (parametricBody pos eq) 0 (2 * pi) (Fin 0, PInf)) (\<lambda>((closestT, minDistance), v).
       try_catch
         (js_bind (evaluateX eq closestT) (\<lambda>x.
          js_bind (evaluateY eq closestT) (\<lambda>y.
            (let dt = Fin 0.01
             in js_bind (evaluateX eq (closestT + dt)) (\<lambda>xp.
                js_bind (evaluateX eq (closestT - dt)) (\<lambda>xm.
                js_bind (evaluateY eq (closestT + dt)) (\<lambda>yp.
                js_bind (evaluateY eq (closestT - dt)) (\<lambda>ym.
                  (let dxdt = (xp - xm) / (Fin 2 * dt);
                       dydt = (yp - ym) / (Fin 2 * dt);
                       tang = v_normalize (Vector2D dxdt dydt);
                       norm = perpendicular tang
                   in Inr (Some \<lparr> equation = eq, closestPoint = Vector2D x y,
                          distance = minDistance, tangent = tang, normal = norm,
                          curvature = Fin 0 \<rparr>))))))))))
         (Inr None))"

definition analyzePathAtPoint :: "engine \<Rightarrow> marble \<Rightarrow> equation \<Rightarrow> pathInfo option js" where
  "analyzePathAtPoint eng m eq =
     (let marblePos = position m in
      case eq of
        ExplicitY f \<Rightarrow> analyzeExplicitY eng marblePos eq
      | Piecewise f \<Rightarrow> analyzeExplicitY eng marblePos eq
      | ConstantY c \<Rightarrow> analyzeExplicitY eng marblePos eq
      | ExplicitX f \<Rightarrow> analyzeExplicitX eng marblePos eq
      | ConstantX c \<Rightarrow> analyzeExplicitX eng marblePos eq
      | Implicit f \<Rightarrow> analyzeImplicit eng marblePos eq
      | Polar f \<Rightarrow> analyzePolar eng marblePos eq
      | Parametric f g \<Rightarrow> analyzeParametric eng marblePos eq
      | Inequality \<Rightarrow> Inr None
      | OtherType \<Rightarrow> Inr None)"

text \<open>The loop of \<open>findNearestPath\<close> over the equations, with \<open>nearestInfo\<close> and \<open>minDistance\<close>.\<close>

fun nearestLoop ::
  "engine \<Rightarrow> marble \<Rightarrow> equation list \<Rightarrow> pathInfo option \<Rightarrow> num \<Rightarrow> pathInfo option js" where
  "nearestLoop eng m [] nearestInfo minDistance = Inr nearestInfo"
| "nearestLoop eng m (eq # eqs) nearestInfo minDistance =
     (case eq of
        Inequality \<Rightarrow> nearestLoop eng m eqs nearestInfo minDistance
      | _ \<Rightarrow>
         (case analyzePathAtPoint eng m eq of Inl e \<Rightarrow> Inl e
          | Inr None \<Rightarrow> nearestLoop eng m eqs nearestInfo minDistance
          | Inr (Some info) \<Rightarrow>
              (if js_lt (distance info) minDistance
               then nearestLoop eng m eqs (Some info) (distance info)
               else nearestLoop eng m eqs nearestInfo minDistance)))"

definition findNearestPath :: "engine \<Rightarrow> marble \<Rightarrow> equation list \<Rightarrow> pathInfo option js" where
  "findNearestPath eng m equations = nearestLoop eng m equations None PInf"

section \<open>The update step\<close>

text \<open>
  \<open>update\<close> mutates the marble and the stars and returns a result object; the model
  returns the new marble, the new stars and the result. Its numbered steps are separate
  definitions here: the path state (step 2), the star collisions (step 4) and the clamp of
  the velocity (step 6), which follows the five steps before it. A call has one of three
  outcomes: it never returns (\<open>None\<close>), it raises (\<open>Some (Inl e)\<close>), or it returns a value
  (\<open>Some (Inr v)\<close>).
\<close>

definition emptyResult :: update_result where
  "emptyResult = \<lparr> starsCollected = [], outOfBounds = False, detached = False, attached = False \<rparr>"

definition freeFallBranch :: "engine \<Rightarrow> marble \<Rightarrow> num \<Rightarrow> marble \<times> update_result" where
  "freeFallBranch eng m scaledDt =
     (let wasOnPath = onPath m;
          result1 = (if wasOnPath then emptyResult\<lparr> detached := True \<rparr> else emptyResult)
      in (updateInAir eng (m\<lparr> onPath := False, currentEquation := None \<rparr>) scaledDt, result1))"

definition attachBranch :: "engine \<Rightarrow> marble \<Rightarrow> pathInfo \<Rightarrow> num \<Rightarrow> marble \<times> update_result" where
  "attachBranch eng m info scaledDt =
     (let wasOnPath = onPath m
      in if shouldAttachToPath m info
         then (let result1 = (if \<not> wasOnPath then emptyResult\<lparr> attached := True \<rparr> else emptyResult);
                   m1 = updateOnPath eng (m\<lparr> onPath := True, currentEquation := Some (equation info) \<rparr>)
                          info scaledDt
               in if shouldDetachFromPath eng m1 info
                  then (m1\<lparr> onPath := False, currentEquation := None \<rparr>, result1\<lparr> detached := True \<rparr>)
                  else (m1, result1))
         else (updateInAir eng (m\<lparr> onPath := False, currentEquation := None \<rparr>) scaledDt,
               emptyResult))"

definition pathState ::
  "engine \<Rightarrow> marble \<Rightarrow> num \<Rightarrow> pathInfo option \<Rightarrow> marble \<times> update_result" where
  "pathState eng m scaledDt pathInfo =
     (case pathInfo of
        None \<Rightarrow> freeFallBranch eng m scaledDt
      | Some info \<Rightarrow>
          if js_lt (distance info) (snapDistance eng) then attachBranch eng m info scaledDt
          else freeFallBranch eng m scaledDt)"

text \<open>The loop over the stars: the new stars and the stars pushed to \<open>starsCollected\<close>.\<close>

fun collectStars :: "marble \<Rightarrow> star list \<Rightarrow> star list \<times> star list" where
  "collectStars m [] = ([], [])"
| "collectStars m (s # ss) =
     (let hit = (\<not> collected s \<and> checkCollision m s);
          s' = (if hit then s\<lparr> collected := True \<rparr> else s);
          (ss', pushed) = collectStars m ss
      in (s' # ss', if hit then s' # pushed else pushed))"

definition clampVelocity :: "engine \<Rightarrow> marble \<Rightarrow> marble" where
  "clampVelocity eng m =
     (if js_lt (magnitude (velocity m)) (minVelocity eng)
      then (if js_gt (magnitude (velocity m)) (Fin 0)
            then m\<lparr> velocity := v_mul (v_normalize (velocity m)) (minVelocity eng * Fin 2) \<rparr>
            else m\<lparr> velocity := Vector2D (Fin 0.01) (gravity eng * Fin 0.01) \<rparr>)
      else m)"

text \<open>Steps 2 to 4: path state, position, star collisions.\<close>

definition stepsBeforeTrail ::
  "engine \<Rightarrow> marble \<Rightarrow> num \<Rightarrow> pathInfo option \<Rightarrow> star list
     \<Rightarrow> marble \<times> star list \<times> update_result" where
  "stepsBeforeTrail eng m scaledDt pathInfo stars =
     (let (m2, result2) = pathState eng m scaledDt pathInfo;
          m3 = m2\<lparr> position := v_add (position m2) (v_mul (velocity m2) scaledDt) \<rparr>;
          (stars', pushed) = collectStars m3 stars;
          result4 = result2\<lparr> starsCollected := pushed \<rparr>
      in (m3, stars', result4))"

text \<open>
  Steps 1 to 5 of \<open>update\<close>: the marble, the stars and the result before the clamp. Step 1
  is inside the \<open>try\<close> of \<open>findNearestPath\<close>, whose handler is the only one on the way; step
  5 is the trail.
\<close>

definition beforeClamp ::
  "engine \<Rightarrow> marble \<Rightarrow> num \<Rightarrow> equation list \<Rightarrow> star list
     \<Rightarrow> (marble \<times> star list \<times> update_result) js option" where
  "beforeClamp eng m dt equations stars =
     (let scaledDt = dt * timeScale eng
      in case findNearestPath eng m equations of
           Inl e \<Rightarrow> Some (Inl e)
         | Inr pathInfo \<Rightarrow>
             (let (m3, stars', result4) = stepsBeforeTrail eng m scaledDt pathInfo stars
              in case updateTrail m3 of
                   None \<Rightarrow> None
                 | Some m5 \<Rightarrow> Some (Inr (m5, stars', result4))))"

definition update ::
  "engine \<Rightarrow> marble \<Rightarrow> num \<Rightarrow> equation list \<Rightarrow> star list
     \<Rightarrow> (marble \<times> star list \<times> update_result) js option" where
  "update eng m dt equations stars =
     (case beforeClamp eng m dt equations stars of
        None \<Rightarrow> None
      | Some (Inl e) \<Rightarrow> Some (Inl e)
      | Some (Inr (m5, stars', result)) \<Rightarrow> Some (Inr (clampVelocity eng m5, stars', result)))"

text \<open>A marble whose trail cap is negative.\<close>

definition negativeCap :: "marble \<Rightarrow> bool" where
  "negativeCap m = js_lt (maxTrailLength m) (Fin 0)"

text \<open>
  What the loop of \<open>updateTrail\<close> leaves when it returns, and steps 2 to 5 of \<open>update\<close> in
  that case.
\<close>

definition trimmed :: "num \<Rightarrow> Vector2D list \<Rightarrow> Vector2D list" where
  "trimmed cap t = (case trimTrail cap t of None \<Rightarrow> t | Some t' \<Rightarrow> t')"

definition trailUpdated :: "marble \<Rightarrow> marble" where
  "trailUpdated m = m\<lparr> trail := trimmed (maxTrailLength m) (trail m @ [position m]) \<rparr>"

definition stepsBeforeClamp ::
  "engine \<Rightarrow> marble \<Rightarrow> num \<Rightarrow> pathInfo option \<Rightarrow> star list
     \<Rightarrow> marble \<times> star list \<times> update_result" where
  "stepsBeforeClamp eng m scaledDt pathInfo stars =
     (let (m3, stars', result4) = stepsBeforeTrail eng m scaledDt pathInfo stars
      in (trailUpdated m3, stars', result4))"

text \<open>A call returns when it does not raise.\<close>

definition returns :: "'a js \<Rightarrow> bool" where
  "returns m = (case m of Inl e \<Rightarrow> False | Inr v \<Rightarrow> True)"


text \<open>A marble at rest at the origin and three stars, for concrete runs.\<close>

definition restingMarble :: marble where
  "restingMarble = Marble (Fin 0) (Fin 0)
     \<lparr> cfg_vx = Some (Fin 0), cfg_vy = Some (Fin 0), cfg_radius = None,
       cfg_maxTrailLength = None \<rparr>"

definition threeStars :: "star list" where
  "threeStars =
     [\<lparr> star_x = Fin 0, star_y = Fin 0, star_radius = Fin 0.25, collected = False \<rparr>,
      \<lparr> star_x = Fin 5, star_y = Fin 5, star_radius = Fin 0.25, collected = True \<rparr>,
      \<lparr> star_x = Fin 5, star_y = Fin 0, star_radius = Fin 0.25, collected = False \<rparr>]"

text \<open>A marble in free flight.\<close>

definition flyingMarble :: marble where
  "flyingMarble = Marble (Fin 0) (Fin 0)
     \<lparr> cfg_vx = Some (Fin 3), cfg_vy = Some (Fin 13.8), cfg_radius = None,
       cfg_maxTrailLength = None \<rparr>"

text \<open>The golden ratio, its inverse and the cube of the inverse, as reals.\<close>

definition phi_r :: real where "phi_r = (1 + sqrt 5) / 2"
definition psi_r :: real where "psi_r = (sqrt 5 - 1) / 2"
definition tau_r :: real where "tau_r = sqrt 5 - 2"

text \<open>The golden-section loop on finite bounds, with the two samples it derives.\<close>

definition GL :: "(num \<Rightarrow> num js) \<Rightarrow> real \<Rightarrow> real \<Rightarrow> nat \<Rightarrow> (num \<times> num \<times> nat) js" where
  "GL f a b n =
     goldenLoop f (Fin a) (Fin b) (Fin (b - (b - a) * psi_r)) (Fin (a + (b - a) * psi_r)) n"

text \<open>
  What the search leaves, in exact arithmetic, between its result and the minimum, when the
  distance grows with the distance from the minimum on both sides. The search meets ties
  on such a curve; a double decides them by its rounding, and with them the side on which
  the result falls, so the theorems on the closest point state a margin and not this value.
\<close>

definition goldenOffset :: real where
  "goldenOffset = 3 * tau_r ^ 6 * (1 - tau_r) / 2"

text \<open>A marble at rest at \<open>(0, 2)\<close>.\<close>

definition marbleOnLine :: marble where
  "marbleOnLine = Marble (Fin 0) (Fin 2)
     \<lparr> cfg_vx = Some (Fin 0), cfg_vy = Some (Fin 0), cfg_radius = None,
       cfg_maxTrailLength = None \<rparr>"








text \<open>
  Whether step 2 of \<open>update\<close> attaches the marble: a path was found within \<open>snapDistance\<close>
  and \<open>shouldAttachToPath\<close> accepts it.
\<close>

definition attaches :: "engine \<Rightarrow> marble \<Rightarrow> pathInfo option \<Rightarrow> bool" where
  "attaches eng m pathInfo =
     (case pathInfo of
        None \<Rightarrow> False
      | Some info \<Rightarrow> js_lt (distance info) (snapDistance eng) \<and> shouldAttachToPath m info)"

text \<open>A marble launched at \<open>(0, 2.25)\<close> with the launch velocity of the game.\<close>

definition launchedMarble :: marble where
  "launchedMarble = Marble (Fin 0) (Fin 2.25)
     \<lparr> cfg_vx = Some (Fin 0.5), cfg_vy = Some (Fin 0), cfg_radius = None,
       cfg_maxTrailLength = None \<rparr>"

text \<open>
  What the analysis returns, in exact arithmetic, for the launched marble on the line
  \<open>y = 2\<close>.
\<close>

definition launchInfo :: pathInfo where
  "launchInfo = \<lparr> equation = ConstantY (Fin 2),
       closestPoint = Vector2D (Fin goldenOffset) (Fin 2),
       distance = Fin (sqrt (goldenOffset\<^sup>2 + (2.25 - 2)\<^sup>2)),
       tangent = Vector2D (Fin 1) (Fin 0), normal = Vector2D (Fin 0) (Fin 1),
       curvature = Fin 0 \<rparr>"

text \<open>
  The frame loop of the game calls \<open>update\<close> once per frame on the same marble and stars;
  \<open>frames\<close> runs a number of such calls.
\<close>

fun frames ::
  "engine \<Rightarrow> num \<Rightarrow> equation list \<Rightarrow> nat \<Rightarrow> marble \<Rightarrow> star list
     \<Rightarrow> (marble \<times> star list) js option" where
  "frames eng dt equations 0 m stars = Some (Inr (m, stars))"
| "frames eng dt equations (Suc n) m stars =
     (case update eng m dt equations stars of
        None \<Rightarrow> None
      | Some (Inl e) \<Rightarrow> Some (Inl e)
      | Some (Inr (m', stars', result)) \<Rightarrow> frames eng dt equations n m' stars')"

text \<open>
  A marble with finite position and velocity at height 2, whose trail cap is not negative.
\<close>

definition atHeightTwo :: "marble \<Rightarrow> bool" where
  "atHeightTwo m \<longleftrightarrow>
     isFinite (x_of (position m)) \<and> y_of (position m) = Fin 2
     \<and> isFinite (x_of (velocity m)) \<and> isFinite (y_of (velocity m))
     \<and> \<not> negativeCap m"



text \<open>A marble whose horizontal velocity is \<open>NaN\<close>.\<close>

definition nanVelocityMarble :: marble where
  "nanVelocityMarble = Marble (Fin 0) (Fin 0)
     \<lparr> cfg_vx = Some NaN, cfg_vy = Some (Fin 1), cfg_radius = None,
       cfg_maxTrailLength = None \<rparr>"

section \<open>Every call returns\<close>

lemma returns_Inr [simp]: "returns (Inr v)"
  by (simp add: returns_def)

lemma returns_Inl [simp]: "\<not> returns (Inl e)"
  by (simp add: returns_def)

lemma returnsE: "returns m \<Longrightarrow> \<exists>v. m = Inr v"
  by (cases m) simp_all

lemma try_catch_returns: "returns h \<Longrightarrow> returns (try_catch b h)"
  by (cases b) (simp_all add: try_catch_def)

lemma js_bind_returns: "returns m \<Longrightarrow> (\<And>v. returns (f v)) \<Longrightarrow> returns (js_bind m f)"
  by (cases m) (simp_all add: js_bind_def)

lemma distanceAtX_returns: "returns (distanceAtX pos eq x)"
  unfolding distanceAtX_def by (rule try_catch_returns) simp

lemma distanceAtY_returns: "returns (distanceAtY pos eq x)"
  unfolding distanceAtY_def by (rule try_catch_returns) simp

lemma goldenLoop_returns:
  assumes f: "\<And>x. returns (f x)"
  shows "returns (goldenLoop f a b c d n)"
  using f
proof (induction f a b c d n rule: goldenLoop.induct)
  case (1 distanceAt a b c d iterations)
  note f = "1.prems"
  show ?case
  proof (cases "js_gt (Math_abs (b - a)) tolerance \<and> iterations < 50")
    case False
    then show ?thesis by (subst goldenLoop.simps) auto
  next
    case True
    obtain dc where dc: "distanceAt c = Inr dc" using returnsE [OF f] by blast
    obtain dd where dd: "distanceAt d = Inr dd" using returnsE [OF f] by blast
    show ?thesis
      using True dc dd "1.IH"(1) [OF True dc dd] "1.IH"(2) [OF True dc dd] f
      by (subst goldenLoop.simps) auto
  qed
qed


lemma findClosestXOnCurve_returns: "returns (findClosestXOnCurve pos eq lo hi)"
  unfolding findClosestXOnCurve_def
  by (rule js_bind_returns) (auto intro: goldenLoop_returns distanceAtX_returns)

lemma findClosestYOnCurve_returns: "returns (findClosestYOnCurve pos eq lo hi)"
  unfolding findClosestYOnCurve_def
  by (rule js_bind_returns) (auto intro: goldenLoop_returns distanceAtY_returns)

lemma calculateGradient_returns: "returns (calculateGradient eng eq x y)"
  unfolding calculateGradient_def Let_def by (rule try_catch_returns) simp

lemma calculateImplicitCurvature_returns: "returns (calculateImplicitCurvature eng eq x y)"
  unfolding calculateImplicitCurvature_def by (simp only: Let_def) (rule try_catch_returns, simp)

lemma analyzeExplicitY_returns: "returns (analyzeExplicitY eng pos eq)"
  unfolding analyzeExplicitY_def
  by (rule js_bind_returns [OF findClosestXOnCurve_returns]) (rule try_catch_returns, simp)

lemma analyzeExplicitX_returns: "returns (analyzeExplicitX eng pos eq)"
  unfolding analyzeExplicitX_def
  by (rule js_bind_returns [OF findClosestYOnCurve_returns]) (rule try_catch_returns, simp)

lemma descentBody_returns: "returns (descentBody eng eq x y)"
  unfolding descentBody_def by (simp only: Let_def) (rule try_catch_returns, simp)

lemma descentLoop_returns: "returns (descentLoop eng eq i x y)"
proof (induction eng eq i x y rule: descentLoop.induct)
  case (1 eng eq i x y)
  obtain r where r: "descentBody eng eq x y = Inr r"
    using returnsE [OF descentBody_returns] by blast
  show ?case
  proof (cases "i < 20")
    case False
    then show ?thesis by (subst descentLoop.simps) auto
  next
    case True
    show ?thesis
    proof (cases r)
      case (Continue x' y')
      with True r "1.IH" [OF True r Continue] show ?thesis
        by (subst descentLoop.simps) auto
    qed (use True r in \<open>subst descentLoop.simps, auto\<close>)+
  qed
qed

lemma findClosestPointImplicit_returns: "returns (findClosestPointImplicit eng pos eq)"
  unfolding findClosestPointImplicit_def
  by (rule js_bind_returns [OF descentLoop_returns]) auto

lemma analyzeImplicit_returns: "returns (analyzeImplicit eng pos eq)"
  unfolding analyzeImplicit_def Let_def
  by (intro js_bind_returns findClosestPointImplicit_returns calculateGradient_returns
        calculateImplicitCurvature_returns) simp

lemma scanLoop_returns:
  assumes "\<And>v st. returns (body v st)"
  shows "returns (scanLoop body v hi st)"
  using assms
proof (induction body v hi st rule: scanLoop.induct)
  case (1 body v hi st)
  obtain st' where st': "body (Fin v) st = Inr st'"
    using returnsE [OF "1.prems"] by blast
  show ?case
  proof (cases "v \<le> hi")
    case True
    with st' "1.IH" [OF True st' "1.prems"] show ?thesis
      by (subst scanLoop.simps) auto
  next
    case False
    then show ?thesis by (subst scanLoop.simps) auto
  qed
qed

lemma polarBody_returns: "returns (polarBody pos eq v st)"
  unfolding polarBody_def by (cases st) (simp, rule try_catch_returns, simp)

lemma parametricBody_returns: "returns (parametricBody pos eq v st)"
  unfolding parametricBody_def by (cases st) (simp, rule try_catch_returns, simp)

lemma polarScan_returns: "returns (polarScan pos eq th)"
  unfolding polarScan_def
  by (auto split: prod.splits num.splits intro!: js_bind_returns scanLoop_returns polarBody_returns)

lemma analyzePolar_returns: "returns (analyzePolar eng pos eq)"
  unfolding analyzePolar_def Let_def
  by (rule js_bind_returns [OF polarScan_returns]) (auto intro: try_catch_returns)

lemma analyzeParametric_returns: "returns (analyzeParametric eng pos eq)"
  unfolding analyzeParametric_def
  by (rule js_bind_returns [OF scanLoop_returns [OF parametricBody_returns]])
     (auto intro: try_catch_returns)

lemma analyzePathAtPoint_returns: "returns (analyzePathAtPoint eng m eq)"
  unfolding analyzePathAtPoint_def Let_def
  by (cases eq)
     (simp_all add: analyzeExplicitY_returns analyzeExplicitX_returns analyzeImplicit_returns
        analyzePolar_returns analyzeParametric_returns)

lemma nearestLoop_returns: "returns (nearestLoop eng m eqs info d)"
proof (induction eqs arbitrary: info d)
  case Nil
  show ?case by simp
next
  case (Cons eq eqs)
  obtain r where r: "analyzePathAtPoint eng m eq = Inr r"
    using returnsE [OF analyzePathAtPoint_returns] by blast
  show ?case
    using Cons.IH r by (cases eq; cases r) simp_all
qed

lemma findNearestPath_returns: "returns (findNearestPath eng m eqs)"
  unfolding findNearestPath_def by (rule nearestLoop_returns)

section \<open>The trail loop\<close>

lemma trimTrail_returns:
  "\<not> js_lt cap (Fin 0) \<Longrightarrow> \<exists>t'. trimTrail cap t = Some t'"
proof (induction t)
  case Nil
  then show ?case by (subst trimTrail.simps) (simp add: js_gt_def)
next
  case (Cons a t)
  then show ?case by (subst trimTrail.simps) simp
qed

lemma trimTrail_Some_cap:
  assumes "trimTrail cap t = Some r"
  shows "\<not> js_lt cap (Fin 0)"
proof (rule trimTrail.raw_induct [where P = "\<lambda>cap t r. \<not> js_lt cap (Fin 0)", OF _ assms])
  fix f :: "num \<Rightarrow> Vector2D list \<Rightarrow> Vector2D list option" and c :: num and u r' :: "Vector2D list"
  assume ih: "\<And>t b y. f t b = Some y \<Longrightarrow> \<not> js_lt t (Fin 0)"
    and r: "(if js_gt (Fin (real (length u))) c then f c (tl u) else Some u) = Some r'"
  show "\<not> js_lt c (Fin 0)"
  proof (cases "js_gt (Fin (real (length u))) c")
    case True
    then show ?thesis using ih r by simp
  next
    case False
    then show ?thesis by (cases c) (simp_all add: js_gt_def)
  qed
qed

lemma trimTrail_diverges: "js_lt cap (Fin 0) \<Longrightarrow> trimTrail cap t = None"
  using trimTrail_Some_cap by (cases "trimTrail cap t") auto

lemma trimTrail_short:
  "\<not> js_gt (Fin (real (length t))) cap \<Longrightarrow> trimTrail cap t = Some t"
  by (subst trimTrail.simps) simp

lemma updateTrail_eq:
  "updateTrail m = (if negativeCap m then None else Some (trailUpdated m))"
proof (cases "negativeCap m")
  case True
  then show ?thesis
    by (simp add: updateTrail_def negativeCap_def trimTrail_diverges)
next
  case False
  then obtain t' where "trimTrail (maxTrailLength m) (trail m @ [position m]) = Some t'"
    using trimTrail_returns unfolding negativeCap_def by blast
  then show ?thesis
    using False by (simp add: updateTrail_def trailUpdated_def trimmed_def)
qed

section \<open>Attachment policy\<close>

lemma isFiniteE: "isFinite a \<Longrightarrow> \<exists>r. a = Fin r"
  by (cases a) simp_all

lemma num_mult_commute: "(a::num) * b = b * a"
  by (cases a; cases b) (simp_all add: mult.commute)

lemma not_gt_zero_times:
  "\<not> js_gt (s * Fin 0) (Fin 2 * Math_abs z)"
  by (cases s; cases z) (simp_all add: js_gt_def)

text \<open>
  C1. \<open>shouldAttachToPath\<close> is true exactly when the tangential speed exceeds half the
  normal speed, or the distance is below 0.1, or the velocity has a positive dot product
  with the normalized vector from the marble to the closest point.
\<close>

theorem shouldAttachToPath_iff:
  "shouldAttachToPath m info \<longleftrightarrow>
     js_gt (Math_abs (dot (velocity m) (v_normalize (tangent info))))
           (Fin 0.5 * Math_abs (dot (velocity m) (v_normalize (normal info))))
     \<or> js_lt (distance info) (Fin 0.1)
     \<or> js_gt (dot (velocity m) (v_normalize (v_sub (closestPoint info) (position m)))) (Fin 0)"
  unfolding shouldAttachToPath_def Let_def v_sub_def
    num_mult_commute [of "Fin 0.5" "Math_abs (dot (velocity m) (v_normalize (normal info)))"]
  by auto

text \<open>
  C2. \<open>shouldDetachFromPath\<close> is true exactly when the slope angle exceeds \<open>maxSlopeAngle\<close>
  and the speed is below \<open>detachThreshold\<close>, or the centripetal requirement
  \<open>speed\<^sup>2 |curvature|\<close> exceeds \<open>2 |gravity cos(slopeAngle)|\<close>; the defaults of the two
  thresholds are \<open>\<pi>/3\<close> and 0.3.
\<close>

theorem shouldDetachFromPath_iff:
  "(shouldDetachFromPath eng m info \<longleftrightarrow>
     (let slopeAngle = Math_atan2 (Math_abs (y_of (tangent info))) (Math_abs (x_of (tangent info)));
          speed = magnitude (velocity m)
      in (js_gt slopeAngle (maxSlopeAngle eng) \<and> js_lt speed (detachThreshold eng))
         \<or> js_gt (speed * speed * Math_abs (curvature info))
                 (Fin 2 * Math_abs (gravity eng * Math_cos slopeAngle))))
   \<and> maxSlopeAngle default_engine = Fin (pi / 3)
   \<and> detachThreshold default_engine = Fin 0.3"
proof -
  define slopeAngle where
    "slopeAngle = Math_atan2 (Math_abs (y_of (tangent info))) (Math_abs (x_of (tangent info)))"
  define speed where "speed = magnitude (velocity m)"
  define force where "force = Math_abs (gravity eng * Math_cos slopeAngle)"
  have zero: "\<not> js_gt (speed * speed * Fin 0) (Fin 2 * force)"
    unfolding force_def by (rule not_gt_zero_times)
  have nan: "\<not> js_gt (speed * speed * NaN) (Fin 2 * force)"
    by (cases "speed * speed") (simp_all add: js_gt_def)
  have "shouldDetachFromPath eng m info \<longleftrightarrow>
      (js_gt slopeAngle (maxSlopeAngle eng) \<and> js_lt speed (detachThreshold eng))
      \<or> js_gt (speed * speed * Math_abs (curvature info)) (Fin 2 * force)"
  proof (cases "curvature info")
    case (Fin c)
    then show ?thesis
      using zero
      by (cases "c = 0")
         (simp_all add: shouldDetachFromPath_def Let_def js_or_def js_eq_def
            slopeAngle_def [symmetric] speed_def [symmetric] force_def [symmetric]
            num_mult_commute [of force])
  next
    case NaN
    then show ?thesis
      using nan
      by (simp add: shouldDetachFromPath_def Let_def js_or_def js_eq_def
            slopeAngle_def [symmetric] speed_def [symmetric] force_def [symmetric])
  qed (simp_all add: shouldDetachFromPath_def Let_def js_or_def js_eq_def
            slopeAngle_def [symmetric] speed_def [symmetric] force_def [symmetric]
            num_mult_commute [of force])
  then show ?thesis
    by (simp add: Let_def slopeAngle_def speed_def force_def default_engine_def)
qed

section \<open>Flags of the marble and of the stars\<close>

lemma updateOnPath_flags [simp]:
  "onPath (updateOnPath eng m info dt) = onPath m"
  "currentEquation (updateOnPath eng m info dt) = currentEquation m"
  "radius (updateOnPath eng m info dt) = radius m"
  by (simp_all add: updateOnPath_def Let_def)

lemma updateInAir_fields [simp]:
  "onPath (updateInAir eng m dt) = onPath m"
  "currentEquation (updateInAir eng m dt) = currentEquation m"
  "position (updateInAir eng m dt) = position m"
  "radius (updateInAir eng m dt) = radius m"
  by (simp_all add: updateInAir_def Let_def)

lemma trailUpdated_fields [simp]:
  "onPath (trailUpdated m) = onPath m"
  "currentEquation (trailUpdated m) = currentEquation m"
  "position (trailUpdated m) = position m"
  "velocity (trailUpdated m) = velocity m"
  "radius (trailUpdated m) = radius m"
  "maxTrailLength (trailUpdated m) = maxTrailLength m"
  by (simp_all add: trailUpdated_def)

lemma clampVelocity_fields [simp]:
  "onPath (clampVelocity eng m) = onPath m"
  "currentEquation (clampVelocity eng m) = currentEquation m"
  "position (clampVelocity eng m) = position m"
  "radius (clampVelocity eng m) = radius m"
  by (simp_all add: clampVelocity_def)

lemma freeFallBranch_flags:
  "\<not> onPath (fst (freeFallBranch eng m dt))"
  "currentEquation (fst (freeFallBranch eng m dt)) = None"
  by (simp_all add: freeFallBranch_def Let_def)

lemma attachBranch_flags:
  "onPath (fst (attachBranch eng m info dt))
     \<longleftrightarrow> currentEquation (fst (attachBranch eng m info dt)) \<noteq> None"
  by (simp add: attachBranch_def Let_def)

lemma pathState_flags:
  "onPath (fst (pathState eng m dt pathInfo))
     \<longleftrightarrow> currentEquation (fst (pathState eng m dt pathInfo)) \<noteq> None"
  by (simp add: pathState_def freeFallBranch_flags attachBranch_flags split: option.splits)

lemma stepsBeforeTrail_marble:
  "fst (stepsBeforeTrail eng m dt pathInfo stars) =
     (fst (pathState eng m dt pathInfo))
       \<lparr> position := v_add (position (fst (pathState eng m dt pathInfo)))
                          (v_mul (velocity (fst (pathState eng m dt pathInfo))) dt) \<rparr>"
  by (simp add: stepsBeforeTrail_def Let_def split: prod.splits)

lemma stepsBeforeClamp_marble:
  "fst (stepsBeforeClamp eng m dt pathInfo stars) =
     trailUpdated ((fst (pathState eng m dt pathInfo))
       \<lparr> position := v_add (position (fst (pathState eng m dt pathInfo)))
                          (v_mul (velocity (fst (pathState eng m dt pathInfo))) dt) \<rparr>)"
  by (simp add: stepsBeforeClamp_def stepsBeforeTrail_def Let_def split: prod.splits)

lemma pathState_cap:
  "maxTrailLength (fst (pathState eng m dt pathInfo)) = maxTrailLength m"
  by (simp add: pathState_def freeFallBranch_def attachBranch_def updateInAir_def
        updateOnPath_def Let_def split: option.splits)

lemma stepsBeforeTrail_cap:
  "negativeCap (fst (stepsBeforeTrail eng m dt pathInfo stars)) = negativeCap m"
  by (simp add: negativeCap_def stepsBeforeTrail_marble pathState_cap)

lemma stepsBeforeClamp_cap:
  "negativeCap (clampVelocity eng (fst (stepsBeforeClamp eng m dt pathInfo stars))) = negativeCap m"
  by (simp add: negativeCap_def stepsBeforeClamp_marble pathState_cap clampVelocity_def)

lemma beforeClamp_eq:
  "findNearestPath eng m equations = Inr pathInfo \<Longrightarrow>
   beforeClamp eng m dt equations stars =
     (if negativeCap m then None
      else Some (Inr (stepsBeforeClamp eng m (dt * timeScale eng) pathInfo stars)))"
  by (simp add: beforeClamp_def Let_def updateTrail_eq stepsBeforeTrail_cap stepsBeforeClamp_def
        case_prod_beta)


lemma update_marble:
  "findNearestPath eng m equations = Inr pathInfo \<Longrightarrow>
   update eng m dt equations stars =
     (if negativeCap m then None
      else Some (Inr
        (clampVelocity eng (fst (stepsBeforeClamp eng m (dt * timeScale eng) pathInfo stars)),
         fst (snd (stepsBeforeClamp eng m (dt * timeScale eng) pathInfo stars)),
         snd (snd (stepsBeforeClamp eng m (dt * timeScale eng) pathInfo stars)))))"
  by (simp add: update_def beforeClamp_eq case_prod_beta)


text \<open>
  C10. After the constructor, after \<open>reset\<close> and after every update step, \<open>onPath\<close> is
  true exactly when \<open>currentEquation\<close> is not null. (No step raises, and the only step that
  does not return is that of a marble whose trail cap is negative.)
\<close>

theorem onPath_iff_currentEquation:
  "(onPath (Marble px py config) \<longleftrightarrow> currentEquation (Marble px py config) \<noteq> None)
   \<and> (onPath (reset m0 px py) \<longleftrightarrow> currentEquation (reset m0 px py) \<noteq> None)
   \<and> (case update eng m dt equations stars of
        None \<Rightarrow> negativeCap m
      | Some (Inl e) \<Rightarrow> False
      | Some (Inr (m', stars', result)) \<Rightarrow> (onPath m' \<longleftrightarrow> currentEquation m' \<noteq> None))"
proof -
  obtain pathInfo where p: "findNearestPath eng m equations = Inr pathInfo"
    using returnsE [OF findNearestPath_returns] by blast
  show ?thesis
    by (simp add: Marble_def reset_def update_marble [OF p] stepsBeforeClamp_marble
          pathState_flags)
qed

lemma collectStars_fst:
  "fst (collectStars m stars) =
     map (\<lambda>s. if \<not> collected s \<and> checkCollision m s then s\<lparr> collected := True \<rparr> else s) stars"
  by (induction stars) (simp_all add: Let_def case_prod_beta)

lemma collectStars_snd:
  "snd (collectStars m stars) =
     map (\<lambda>s. s\<lparr> collected := True \<rparr>) (filter (\<lambda>s. \<not> collected s \<and> checkCollision m s) stars)"
  by (induction stars) (simp_all add: Let_def case_prod_beta)

lemma checkCollision_cong:
  "position m = position m' \<Longrightarrow> radius m = radius m' \<Longrightarrow> checkCollision m s = checkCollision m' s"
  by (simp add: checkCollision_def)

lemma stepsBeforeClamp_stars:
  "fst (snd (stepsBeforeClamp eng m dt pathInfo stars)) =
     fst (collectStars (fst (stepsBeforeClamp eng m dt pathInfo stars)) stars)"
  "starsCollected (snd (snd (stepsBeforeClamp eng m dt pathInfo stars))) =
     snd (collectStars (fst (stepsBeforeClamp eng m dt pathInfo stars)) stars)"
proof -
  define m2 where "m2 = fst (pathState eng m dt pathInfo)"
  define m3 where "m3 = m2\<lparr> position := v_add (position m2) (v_mul (velocity m2) dt) \<rparr>"
  have c: "collectStars (trailUpdated m3) stars = collectStars m3 stars"
    by (simp add: collectStars_fst collectStars_snd prod_eq_iff
          checkCollision_cong [of "trailUpdated m3" m3])
  show "fst (snd (stepsBeforeClamp eng m dt pathInfo stars)) =
     fst (collectStars (fst (stepsBeforeClamp eng m dt pathInfo stars)) stars)"
    unfolding stepsBeforeClamp_marble m2_def [symmetric] m3_def [symmetric] c
    by (simp add: stepsBeforeClamp_def stepsBeforeTrail_def Let_def m2_def m3_def
          split: prod.splits)
  show "starsCollected (snd (snd (stepsBeforeClamp eng m dt pathInfo stars))) =
     snd (collectStars (fst (stepsBeforeClamp eng m dt pathInfo stars)) stars)"
    unfolding stepsBeforeClamp_marble m2_def [symmetric] m3_def [symmetric] c
    by (simp add: stepsBeforeClamp_def stepsBeforeTrail_def Let_def m2_def m3_def
          split: prod.splits)
qed

text \<open>
  C6. In an update step a star's \<open>collected\<close> flag is set exactly when the star was not
  collected and the collision test passes, no flag is ever cleared, and the stars pushed to
  \<open>starsCollected\<close> are the stars whose flag was set in this step. (No step raises, and the
  only step that does not return is that of a marble whose trail cap is negative.)
\<close>

theorem collected_monotone:
  "case update eng m dt equations stars of
     None \<Rightarrow> negativeCap m
   | Some (Inl e) \<Rightarrow> False
   | Some (Inr (m', stars', result)) \<Rightarrow>
       stars' = map (\<lambda>s. if \<not> collected s \<and> checkCollision m' s
                          then s\<lparr> collected := True \<rparr> else s) stars
       \<and> map collected stars' = map (\<lambda>s. collected s \<or> checkCollision m' s) stars
       \<and> list_all2 (\<lambda>s s'. collected s \<longrightarrow> collected s') stars stars'
       \<and> starsCollected result =
           map (\<lambda>s. s\<lparr> collected := True \<rparr>)
             (filter (\<lambda>s. \<not> collected s \<and> checkCollision m' s) stars)"
proof -
  obtain pathInfo where p: "findNearestPath eng m equations = Inr pathInfo"
    using returnsE [OF findNearestPath_returns] by blast
  define m5 where "m5 = fst (stepsBeforeClamp eng m (dt * timeScale eng) pathInfo stars)"
  have c: "checkCollision (clampVelocity eng m5) s = checkCollision m5 s" for s
    by (rule checkCollision_cong) simp_all
  have mono: "list_all2 (\<lambda>s s'. collected s \<longrightarrow> collected s') stars
       (map (\<lambda>s. if \<not> collected s \<and> checkCollision m5 s
                          then s\<lparr> collected := True \<rparr> else s) stars)"
    by (induction stars) simp_all
  show ?thesis
    using mono
    by (simp add: update_marble [OF p] stepsBeforeClamp_stars m5_def [symmetric] c
          collectStars_fst collectStars_snd)
qed


lemmas step_defs =
  update_def beforeClamp_def findNearestPath_def stepsBeforeTrail_def pathState_def freeFallBranch_def
  attachBranch_def updateInAir_def updateOnPath_def updateTrail_def clampVelocity_def
  emptyResult_def js_bind_def try_catch_def Let_def

lemmas vector_defs =
  v_add_def v_sub_def v_mul_def v_div_def magnitude_def v_normalize_def dot_def
  perpendicular_def lerp_def distanceTo_def fromObject_def minus_num_def js_gt_def js_ge_def
  js_eq_def js_or_def

theorem collected_monotone_witness:
  "case update default_engine restingMarble (Fin 0) [] threeStars of
     Some (Inr (m', stars', result)) \<Rightarrow>
       map collected threeStars = [False, True, False]
       \<and> map (checkCollision m') threeStars = [True, False, False]
       \<and> map collected stars' = [True, True, False]
       \<and> length (starsCollected result) = 1
   | _ \<Rightarrow> False"
  using collected_monotone [where eng = default_engine and m = restingMarble and dt = "Fin 0"
          and equations = "[]" and stars = threeStars]
  by (simp add: step_defs vector_defs default_engine_def restingMarble_def Marble_def
        threeStars_def checkCollision_def trimTrail_short)

section \<open>Free fall\<close>

lemma sqrt_25: "sqrt 25 = 5"
  by (rule real_sqrt_unique) simp_all

text \<open>
  C8 (amended). For a finite velocity, gravity, drag coefficient and time step,
  \<open>updateInAir\<close> adds \<open>gravity \<times> dt\<close> to the vertical velocity and then adds
  \<open>normalize(velocity) \<times> (-drag) \<times> dt\<close> with \<open>drag = airDrag \<times> |velocity| \<times> |velocity|\<close>.
  (The code adds the drag term only when the speed after the gravity step is above 0; for
  finite values the term it skips is zero.)
\<close>

theorem updateInAir_gravity_then_drag:
  assumes "isFinite (x_of (velocity m))" and "isFinite (y_of (velocity m))"
    and "isFinite (gravity eng)" and "isFinite (airDrag eng)" and "isFinite dt"
  shows "updateInAir eng m dt =
     (let v1 = Vector2D (x_of (velocity m)) (y_of (velocity m) + gravity eng * dt);
          drag = airDrag eng * magnitude v1 * magnitude v1
      in m\<lparr> velocity := v_add v1 (v_mul (v_mul (v_normalize v1) (- drag)) dt) \<rparr>)"
proof -
  obtain vx vy g k t where f: "x_of (velocity m) = Fin vx" "y_of (velocity m) = Fin vy"
    "gravity eng = Fin g" "airDrag eng = Fin k" "dt = Fin t"
    using assms by (meson isFiniteE)
  define w where "w = vy + g * t"
  have nn: "0 \<le> vx * vx + w * w" by simp
  show ?thesis
  proof (cases "0 < sqrt (vx * vx + w * w)")
    case True
    then show ?thesis
      using nn by (simp add: updateInAir_def Let_def f vector_defs w_def [symmetric] mult.assoc)
  next
    case False
    then have z: "vx * vx + w * w = 0"
      using nn by (metis not_less real_sqrt_gt_zero order_le_less)
    then have "vx * vx = 0 \<and> w * w = 0"
      using zero_le_square [of vx] zero_le_square [of w] by linarith
    then have "vx = 0" "w = 0"
      by simp_all
    then show ?thesis
      by (simp add: updateInAir_def Let_def f vector_defs w_def [symmetric])
  qed
qed

text \<open>
  With the velocity \<open>(NaN, 1)\<close> and the time step 0 the speed after the gravity step is
  \<open>NaN\<close>, which is not above 0: the code adds no drag and leaves \<open>(NaN, 1)\<close>, where the
  formula gives \<open>(NaN, NaN)\<close>.
\<close>

theorem drag_guard_counterexample:
  "velocity (updateInAir default_engine nanVelocityMarble (Fin 0)) = Vector2D NaN (Fin 1)
   \<and> (let v1 = Vector2D (x_of (velocity nanVelocityMarble))
                        (y_of (velocity nanVelocityMarble) + gravity default_engine * Fin 0);
           drag = airDrag default_engine * magnitude v1 * magnitude v1
       in v_add v1 (v_mul (v_mul (v_normalize v1) (- drag)) (Fin 0))) = Vector2D NaN NaN"
  by (simp add: updateInAir_def Let_def nanVelocityMarble_def Marble_def default_engine_def
        vector_defs)

theorem updateInAir_gravity_then_drag_witness:
  "isFinite (x_of (velocity flyingMarble)) \<and> isFinite (y_of (velocity flyingMarble))
   \<and> isFinite (gravity default_engine) \<and> isFinite (airDrag default_engine) \<and> isFinite (Fin 1)
   \<and> velocity (updateInAir default_engine flyingMarble (Fin 1)) = Vector2D (Fin 2.85) (Fin 3.8)"
proof -
  have h: "isFinite (x_of (velocity flyingMarble))" "isFinite (y_of (velocity flyingMarble))"
    "isFinite (gravity default_engine)" "isFinite (airDrag default_engine)" "isFinite (Fin 1)"
    by (simp_all add: flyingMarble_def Marble_def default_engine_def)
  show ?thesis
    using h updateInAir_gravity_then_drag [OF h]
    by (simp add: flyingMarble_def Marble_def default_engine_def Let_def vector_defs sqrt_25)
qed

section \<open>The golden-section search on a constant curve\<close>

lemma sqrt5_bounds: "2.2346 < sqrt 5" "sqrt 5 < 2.2361"
proof -
  have "sqrt (2.2346 ^ 2) < sqrt 5"
    by (subst real_sqrt_less_iff) (simp add: power2_eq_square)
  then show "2.2346 < sqrt 5" by simp
  have "sqrt 5 < sqrt (2.2361 ^ 2)"
    by (subst real_sqrt_less_iff) (simp add: power2_eq_square)
  then show "sqrt 5 < 2.2361" by simp
qed

lemma sqrt5_sq: "sqrt 5 * sqrt 5 = 5"
  by simp

lemma phi_num: "phi = Fin phi_r"
  by (simp add: phi_def phi_r_def)

lemma phi_r_pos: "0 < phi_r"
  using sqrt5_bounds by (simp add: phi_r_def)

lemma inv_phi: "x / phi_r = x * psi_r"
proof -
  have "phi_r * psi_r = 1"
    by (simp add: phi_r_def psi_r_def algebra_simps)
  then show ?thesis
    using phi_r_pos by (simp add: field_simps)
qed

lemma psi_sq: "psi_r * psi_r = 1 - psi_r"
proof -
  have "(sqrt 5 - 1) * (sqrt 5 - 1) = 6 - 2 * sqrt 5"
    by (simp add: algebra_simps)
  then show ?thesis
    by (simp add: psi_r_def field_simps)
qed

lemma tau_psi: "tau_r = 2 * psi_r - 1"
  by (simp add: psi_r_def tau_r_def field_simps)

lemma psi_bounds: "0.6173 < psi_r" "psi_r < 0.61805"
  using sqrt5_bounds by (simp_all add: psi_r_def)

lemma tau_bounds: "0.2346 < tau_r" "tau_r < 0.2361"
  using sqrt5_bounds by (simp_all add: tau_r_def)

lemma phi_r_nz: "phi_r \<noteq> 0"
  using phi_r_pos by simp

lemma GL_init:
  "goldenLoop f (Fin a) (Fin b) (Fin b - (Fin b - Fin a) / phi) (Fin a + (Fin b - Fin a) / phi) n
     = GL f a b n"
  by (simp add: GL_def phi_num minus_num_def phi_r_nz inv_phi)

lemma sq_less_abs: "(x::real)\<^sup>2 < y\<^sup>2 \<longleftrightarrow> \<bar>x\<bar> < \<bar>y\<bar>"
  using abs_le_square_iff [of y x] by (simp add: not_le [symmetric])

lemma GL_step:
  assumes F: "\<And>x. f (Fin x) = Inr (Fin (sqrt ((p - x)\<^sup>2 + k\<^sup>2)))"
    and w: "0.001 < \<bar>b - a\<bar>" and n: "n < 50"
  shows "GL f a b n =
     (if \<bar>p - (b - (b - a) * psi_r)\<bar> < \<bar>p - (a + (b - a) * psi_r)\<bar>
      then GL f a (a + (b - a) * psi_r) (n + 1)
      else GL f (b - (b - a) * psi_r) b (n + 1))"
  unfolding GL_def
  by (subst goldenLoop.simps)
     (use w n in \<open>simp add: F tolerance_def js_gt_def minus_num_def phi_num phi_r_nz inv_phi
        sq_less_abs\<close>)

lemma GL_stop:
  assumes "\<not> (0.001 < \<bar>b - a\<bar> \<and> n < 50)"
  shows "GL f a b n = Inr (Fin a, Fin b, n)"
  unfolding GL_def
  by (subst goldenLoop.simps)
     (use assms in \<open>auto simp add: tolerance_def js_gt_def minus_num_def\<close>)

lemma GL_left:
  assumes F: "\<And>x. f (Fin x) = Inr (Fin (sqrt ((p - x)\<^sup>2 + k\<^sup>2)))"
    and c: "c = b - (b - a) * psi_r" and d: "d = a + (b - a) * psi_r"
    and w: "0.001 < \<bar>b - a\<bar>" and n: "n < 50"
    and cmp: "\<bar>p - c\<bar> < \<bar>p - d\<bar>"
  shows "GL f a b n = GL f a d (n + 1)"
  using cmp unfolding c d by (subst GL_step [OF F w n]) simp

lemma GL_right:
  assumes F: "\<And>x. f (Fin x) = Inr (Fin (sqrt ((p - x)\<^sup>2 + k\<^sup>2)))"
    and c: "c = b - (b - a) * psi_r" and d: "d = a + (b - a) * psi_r"
    and w: "0.001 < \<bar>b - a\<bar>" and n: "n < 50"
    and cmp: "\<not> \<bar>p - c\<bar> < \<bar>p - d\<bar>"
  shows "GL f a b n = GL f c b (n + 1)"
  using cmp unfolding c d by (subst GL_step [OF F w n]) simp

lemma GL_cycle:
  assumes F: "\<And>x. f (Fin x) = Inr (Fin (sqrt ((p - x)\<^sup>2 + k\<^sup>2)))"
    and w: "0 < w" and wide: "0.001 < 2 * w * (1 - psi_r)" and n: "n + 3 \<le> 50"
  shows "GL f (p - w) (p + w) n = GL f (p - w * tau_r) (p + w * tau_r) (n + 3)"
proof -
  note b = psi_bounds tau_bounds
  have ps: "w * psi_r * psi_r = w * (1 - psi_r)"
    using psi_sq by (simp add: mult.assoc)
  have t: "tau_r = 2 * psi_r - 1" by (rule tau_psi)
  have wt: "0 < w * tau_r" "w * tau_r < w" "w * psi_r < w" "0 < w * psi_r"
    using w b by simp_all
  \<comment> \<open>first step: both samples are equally far, the left end moves\<close>
  have c1: "p - w * tau_r = p + w - (p + w - (p - w)) * psi_r"
    and d1: "p + w * tau_r = p - w + (p + w - (p - w)) * psi_r"
    by (simp_all add: t algebra_simps)
  have m: "2 * w * (1 - psi_r) < 2 * w * psi_r" "2 * w * (1 - psi_r) < 2 * w"
    using w b by simp_all
  have "p + w - (p - w) = 2 * w"
    by simp
  then have w1: "0.001 < \<bar>p + w - (p - w)\<bar>"
    using wide m by linarith
  have s1: "GL f (p - w) (p + w) n = GL f (p - w * tau_r) (p + w) (n + 1)"
    by (rule GL_right [OF F c1 d1 w1]) (use n in simp_all)
  \<comment> \<open>second step: the right end moves\<close>
  have c2: "p + w * tau_r = p + w - (p + w - (p - w * tau_r)) * psi_r"
    and d2: "p + w * (3 - 4 * psi_r) = p - w * tau_r + (p + w - (p - w * tau_r)) * psi_r"
    using ps by (simp_all add: t algebra_simps)
  have lt2: "w * tau_r < w * (3 - 4 * psi_r)"
    using w b by simp
  have "p + w - (p - w * tau_r) = 2 * w * psi_r"
    by (simp add: t algebra_simps)
  then have w2: "0.001 < \<bar>p + w - (p - w * tau_r)\<bar>"
    using wide m by linarith
  have s2: "GL f (p - w * tau_r) (p + w) (n + 1)
      = GL f (p - w * tau_r) (p + w * (3 - 4 * psi_r)) (n + 1 + 1)"
    by (rule GL_left [OF F c2 d2 w2]) (use n lt2 wt w b in \<open>simp_all add: abs_mult\<close>)
  \<comment> \<open>third step: the right end moves again\<close>
  have c3: "p + w * (5 - 8 * psi_r)
      = p + w * (3 - 4 * psi_r) - (p + w * (3 - 4 * psi_r) - (p - w * tau_r)) * psi_r"
    and d3: "p + w * tau_r
      = p - w * tau_r + (p + w * (3 - 4 * psi_r) - (p - w * tau_r)) * psi_r"
    using ps by (simp_all add: t algebra_simps)
  have lt3: "0 < w * (5 - 8 * psi_r)" "w * (5 - 8 * psi_r) < w * tau_r"
    using w b by simp_all
  have "p + w * (3 - 4 * psi_r) - (p - w * tau_r) = 2 * w * (1 - psi_r)"
    by (simp add: t algebra_simps)
  then have w3: "0.001 < \<bar>p + w * (3 - 4 * psi_r) - (p - w * tau_r)\<bar>"
    using wide m by linarith
  have s3: "GL f (p - w * tau_r) (p + w * (3 - 4 * psi_r)) (n + 1 + 1)
      = GL f (p - w * tau_r) (p + w * tau_r) (n + 1 + 1 + 1)"
    by (rule GL_left [OF F c3 d3 w3]) (use n lt3 wt w b in \<open>simp_all add: abs_mult\<close>)
  have "n + 1 + 1 + 1 = n + 3" by simp
  then show ?thesis
    using s1 s2 s3 by metis
qed

lemma tau_pow_bounds:
  "0.2346 ^ 5 < tau_r ^ 5" "0.2346 ^ 6 < tau_r ^ 6" "tau_r ^ 6 < 0.2361 ^ 6"
  using tau_bounds by (simp_all add: power_strict_mono)

lemma GL_cycles:
  assumes F: "\<And>x. f (Fin x) = Inr (Fin (sqrt ((p - x)\<^sup>2 + k\<^sup>2)))"
  shows "j \<le> 6 \<Longrightarrow> GL f (p - 3) (p + 3) 0 = GL f (p - 3 * tau_r ^ j) (p + 3 * tau_r ^ j) (3 * j)"
proof (induction j)
  case 0
  show ?case by simp
next
  case (Suc j)
  then have j: "j \<le> 5" by simp
  have "tau_r ^ 5 \<le> tau_r ^ j"
    using j tau_bounds by (intro power_decreasing) simp_all
  then have lo: "0.2346 ^ 5 < tau_r ^ j"
    using tau_pow_bounds(1) by linarith
  have pos: "0 < 3 * tau_r ^ j"
    using tau_bounds by simp
  have "(0.001::real) < 2 * (3 * 0.2346 ^ 5) * (1 - 0.61805)"
    by (simp add: power_divide)
  also have "\<dots> < 2 * (3 * tau_r ^ j) * (1 - 0.61805)"
    using lo by simp
  also have "\<dots> < 2 * (3 * tau_r ^ j) * (1 - psi_r)"
    using pos psi_bounds by simp
  finally have wide: "0.001 < 2 * (3 * tau_r ^ j) * (1 - psi_r)" .
  have n3: "3 * j + 3 = 3 * Suc j"
    by simp
  have ts: "3 * tau_r ^ j * tau_r = 3 * tau_r ^ Suc j"
    by simp
  have "GL f (p - 3) (p + 3) 0 = GL f (p - 3 * tau_r ^ j) (p + 3 * tau_r ^ j) (3 * j)"
    using Suc.IH j by simp
  also have "\<dots> = GL f (p - 3 * tau_r ^ j * tau_r) (p + 3 * tau_r ^ j * tau_r) (3 * j + 3)"
    by (rule GL_cycle [OF F pos wide]) (use j in simp)
  finally show ?case
    unfolding n3 ts .
qed

lemma GL_result:
  assumes F: "\<And>x. f (Fin x) = Inr (Fin (sqrt ((p - x)\<^sup>2 + k\<^sup>2)))"
  shows "GL f (p - 3) (p + 3) 0
     = Inr (Fin (p - 3 * tau_r ^ 6 * tau_r), Fin (p + 3 * tau_r ^ 6), 19)"
proof -
  define w where "w = 3 * tau_r ^ 6"
  define L where "L = (0.2346::real) ^ 6"
  define U where "U = (0.2361::real) ^ 6"
  have LU: "0.001 < 2 * (3 * L)" "2 * (3 * U) * 0.61805 < 0.001" "0 < U"
    by (simp_all add: L_def U_def power_divide)
  have w: "3 * L < w" "w < 3 * U"
    using tau_pow_bounds by (simp_all add: w_def L_def U_def)
  have wpos: "0 < w"
    using tau_bounds by (simp add: w_def)
  have c: "p - w * tau_r = p + w - (p + w - (p - w)) * psi_r"
    and d: "p + w * tau_r = p - w + (p + w - (p - w)) * psi_r"
    by (simp_all add: tau_psi algebra_simps)
  have wide: "0.001 < \<bar>p + w - (p - w)\<bar>"
    using w LU by simp
  have "GL f (p - 3) (p + 3) 0 = GL f (p - w) (p + w) 18"
    using GL_cycles [OF F, of 6] by (simp add: w_def)
  also have "\<dots> = GL f (p - w * tau_r) (p + w) (18 + 1)"
    by (rule GL_right [OF F c d wide]) simp_all
  also have "\<dots> = Inr (Fin (p - w * tau_r), Fin (p + w), 19)"
  proof -
    have "p + w - (p - w * tau_r) = 2 * w * psi_r"
      by (simp add: tau_psi algebra_simps)
    moreover have "2 * w * psi_r < 2 * (3 * U) * 0.61805"
    proof (rule mult_strict_mono)
      show "2 * w < 2 * (3 * U)" using w by simp
      show "psi_r < 0.61805" by (rule psi_bounds)
      show "0 < 2 * (3 * U)" using LU by simp
      show "0 \<le> psi_r" using psi_bounds by simp
    qed
    moreover have "0 < 2 * w * psi_r"
      using wpos psi_bounds by simp
    ultimately have "\<not> 0.001 < \<bar>p + w - (p - w * tau_r)\<bar>"
      using LU by linarith
    then have "GL f (p - w * tau_r) (p + w) (18 + 1)
        = Inr (Fin (p - w * tau_r), Fin (p + w), 18 + 1)"
      by (intro GL_stop) simp
    then show ?thesis by simp
  qed
  finally show ?thesis
    by (simp add: w_def)
qed

lemma goldenOffset_bounds: "0 < goldenOffset" "goldenOffset < 0.0002"
proof -
  show "0 < goldenOffset"
    using tau_bounds by (simp add: goldenOffset_def)
  define z where "z = tau_r ^ 6 * (1 - tau_r)"
  define K where "K = (0.2361::real) ^ 6 * (1 - 0.2346)"
  have "z < K"
    unfolding z_def K_def using tau_pow_bounds tau_bounds by (intro mult_strict_mono) simp_all
  moreover have "3 * K / 2 < 0.0002"
    by (simp add: K_def power_divide)
  moreover have "goldenOffset = 3 * z / 2"
    by (simp add: goldenOffset_def z_def)
  ultimately show "goldenOffset < 0.0002"
    by linarith
qed

lemma golden_search:
  assumes F: "\<And>x. f (Fin x) = Inr (Fin (sqrt ((p - x)\<^sup>2 + k\<^sup>2)))"
  shows "js_bind (goldenLoop f (Fin p - Fin 3) (Fin p + Fin 3)
            ((Fin p + Fin 3) - ((Fin p + Fin 3) - (Fin p - Fin 3)) / phi)
            ((Fin p - Fin 3) + ((Fin p + Fin 3) - (Fin p - Fin 3)) / phi) 0)
          (\<lambda>(a, b, iterations). Inr ((a + b) / Fin 2))
     = Inr (Fin (p + goldenOffset))"
proof -
  have e: "Fin p - Fin 3 = Fin (p - 3)" "Fin p + Fin 3 = Fin (p + 3)"
    by (simp_all add: minus_num_def)
  show ?thesis
    unfolding e GL_init GL_result [OF F]
    by (simp add: js_bind_def goldenOffset_def field_simps)
qed

section \<open>Constant curves\<close>

lemma distanceAtX_const:
  "distanceAtX (Vector2D (Fin px) (Fin py)) (ConstantY (Fin c)) (Fin x)
     = Inr (Fin (sqrt ((px - x)\<^sup>2 + (py - c)\<^sup>2)))"
  by (simp add: distanceAtX_def try_catch_def js_bind_def distanceTo_def Let_def minus_num_def
        power2_eq_square)

lemma distanceAtY_const:
  "distanceAtY (Vector2D (Fin px) (Fin py)) (ConstantX (Fin c)) (Fin y)
     = Inr (Fin (sqrt ((py - y)\<^sup>2 + (px - c)\<^sup>2)))"
  by (simp add: distanceAtY_def try_catch_def js_bind_def distanceTo_def Let_def minus_num_def
        power2_eq_square add.commute)

lemma findClosestXOnCurve_const:
  "findClosestXOnCurve (Vector2D (Fin px) (Fin py)) (ConstantY (Fin c)) (Fin (px - 3)) (Fin (px + 3))
     = Inr (Fin (px + goldenOffset))"
proof -
  have e: "Fin (px - 3) = Fin px - Fin 3" "Fin (px + 3) = Fin px + Fin 3"
    by (simp_all add: minus_num_def)
  show ?thesis
    unfolding e findClosestXOnCurve_def by (rule golden_search) (rule distanceAtX_const)
qed

lemma findClosestYOnCurve_const:
  "findClosestYOnCurve (Vector2D (Fin px) (Fin py)) (ConstantX (Fin c)) (Fin (py - 3)) (Fin (py + 3))
     = Inr (Fin (py + goldenOffset))"
proof -
  have e: "Fin (py - 3) = Fin py - Fin 3" "Fin (py + 3) = Fin py + Fin 3"
    by (simp_all add: minus_num_def)
  show ?thesis
    unfolding e findClosestYOnCurve_def by (rule golden_search) (rule distanceAtY_const)
qed

lemma derivative_const:
  assumes "derivativeStep eng = Fin h" and "h \<noteq> 0"
  shows "calculateDerivative eng (ConstantY (Fin c)) x = Inr (Fin 0)"
    and "calculateSecondDerivative eng (ConstantY (Fin c)) x = Inr (Fin 0)"
    and "calculateDerivativeX eng (ConstantX (Fin c)) x = Inr (Fin 0)"
    and "calculateSecondDerivativeX eng (ConstantX (Fin c)) x = Inr (Fin 0)"
  using assms
  by (simp_all add: calculateDerivative_def calculateSecondDerivative_def
        calculateDerivativeX_def calculateSecondDerivativeX_def
        try_catch_def js_bind_def Let_def minus_num_def)

lemma fromObject_Fin: "fromObject (Vector2D (Fin a) (Fin b)) = Vector2D (Fin a) (Fin b)"
  by (simp add: fromObject_def js_or_def)

lemma analyzeExplicitY_const:
  assumes "derivativeStep eng = Fin h" and "h \<noteq> 0"
  shows "analyzeExplicitY eng (Vector2D (Fin px) (Fin py)) (ConstantY (Fin c)) =
     Inr (Some \<lparr> equation = ConstantY (Fin c),
       closestPoint = Vector2D (Fin (px + goldenOffset)) (Fin c),
       distance = Fin (sqrt (goldenOffset\<^sup>2 + (py - c)\<^sup>2)),
       tangent = Vector2D (Fin 1) (Fin 0), normal = Vector2D (Fin 0) (Fin 1),
       curvature = Fin 0 \<rparr>)"
  unfolding analyzeExplicitY_def
  by (simp add: findClosestXOnCurve_const derivative_const [OF assms]
        js_bind_def try_catch_def Let_def fromObject_Fin distanceTo_def v_normalize_def
        magnitude_def v_div_def perpendicular_def js_eq_def minus_num_def power2_eq_square)

lemma analyzeExplicitX_const:
  assumes "derivativeStep eng = Fin h" and "h \<noteq> 0"
  shows "analyzeExplicitX eng (Vector2D (Fin px) (Fin py)) (ConstantX (Fin c)) =
     Inr (Some \<lparr> equation = ConstantX (Fin c),
       closestPoint = Vector2D (Fin c) (Fin (py + goldenOffset)),
       distance = Fin (sqrt ((px - c)\<^sup>2 + goldenOffset\<^sup>2)),
       tangent = Vector2D (Fin 0) (Fin 1), normal = Vector2D (Fin (- 1)) (Fin 0),
       curvature = Fin 0 \<rparr>)"
  unfolding analyzeExplicitX_def
  by (simp add: findClosestYOnCurve_const derivative_const [OF assms]
        js_bind_def try_catch_def Let_def fromObject_Fin distanceTo_def v_normalize_def
        magnitude_def v_div_def perpendicular_def js_eq_def minus_num_def power2_eq_square)

section \<open>Absorbed failures and bounded searches\<close>


















section \<open>The clamp of the velocity\<close>





lemma distanceTo_same_height:
  "distanceTo (Vector2D (Fin a) (Fin c)) (Vector2D (Fin b) (Fin c)) = Fin \<bar>a - b\<bar>"
  by (simp add: distanceTo_def Let_def minus_num_def)


lemma default_engine_fields:
  "gravity default_engine = Fin (- 9.8)" "timeScale default_engine = Fin 0.016"
  "rollingFriction default_engine = Fin 0.02" "airDrag default_engine = Fin 0.01"
  "snapDistance default_engine = Fin 0.5" "snapStrength default_engine = Fin 0.4"
  "detachThreshold default_engine = Fin 0.3" "maxSlopeAngle default_engine = Fin (pi / 3)"
  "minVelocity default_engine = Fin 0.001" "derivativeStep default_engine = Fin 0.001"
  by (simp_all add: default_engine_def)




section \<open>A step with time step 0\<close>

lemma add_zero_times: "isFinite a \<Longrightarrow> p + a * Fin 0 = p"
  by (cases a; cases p) simp_all

lemma position_zero_dt:
  assumes "isFinite (x_of (velocity m2))" and "isFinite (y_of (velocity m2))"
  shows "v_add (position m2) (v_mul (velocity m2) (Fin 0)) = position m2"
  using assms by (cases "position m2") (simp add: v_add_def v_mul_def add_zero_times)

lemma updateInAir_zero_dt_finite:
  assumes "isFinite (gravity eng)" and "isFinite (airDrag eng)"
    and "isFinite (x_of (velocity m))" and "isFinite (y_of (velocity m))"
  shows "isFinite (x_of (velocity (updateInAir eng m (Fin 0))))
       \<and> isFinite (y_of (velocity (updateInAir eng m (Fin 0))))"
proof -
  obtain g k vx vy where f: "gravity eng = Fin g" "airDrag eng = Fin k"
    "x_of (velocity m) = Fin vx" "y_of (velocity m) = Fin vy"
    using assms by (meson isFiniteE)
  show ?thesis
    by (simp add: updateInAir_def Let_def f vector_defs)
qed

lemma stepsBeforeClamp_flags:
  "onPath (fst (stepsBeforeClamp eng m sdt pathInfo stars)) = onPath (fst (pathState eng m sdt pathInfo))"
  "currentEquation (fst (stepsBeforeClamp eng m sdt pathInfo stars))
     = currentEquation (fst (pathState eng m sdt pathInfo))"
  "position (fst (stepsBeforeClamp eng m sdt pathInfo stars))
     = v_add (position (fst (pathState eng m sdt pathInfo)))
             (v_mul (velocity (fst (pathState eng m sdt pathInfo))) sdt)"
  by (simp_all add: stepsBeforeClamp_marble)

lemma pathState_cases:
  "\<not> attaches eng m pathInfo \<Longrightarrow>
     fst (pathState eng m sdt pathInfo)
       = updateInAir eng (m\<lparr> onPath := False, currentEquation := None \<rparr>) sdt"
  "attaches eng m (Some info) \<Longrightarrow>
     fst (pathState eng m sdt (Some info))
       = (let m1 = updateOnPath eng (m\<lparr> onPath := True, currentEquation := Some (equation info) \<rparr>)
                     info sdt
          in if shouldDetachFromPath eng m1 info
             then m1\<lparr> onPath := False, currentEquation := None \<rparr> else m1)"
  by (auto simp add: attaches_def pathState_def freeFallBranch_def attachBranch_def Let_def
        split: option.splits)

lemma updateOnPath_position:
  "position (updateOnPath eng m info sdt) = lerp (position m) (closestPoint info) (snapStrength eng)"
  by (simp add: updateOnPath_def Let_def)

text \<open>
  C3 (amended). With a time step of 0 and a finite time scale: a step that does not attach
  the marble leaves it unattached, and leaves its position unchanged when the velocity that
  \<open>updateInAir\<close> sets is finite; a step that attaches it leaves it on the path unless
  \<open>shouldDetachFromPath\<close> fires, and moves it to the interpolation between its position
  and the closest point when the velocity that \<open>updateOnPath\<close> sets is finite.
\<close>

theorem zero_dt_step:
  assumes "isFinite (timeScale eng)"
    and "findNearestPath eng m equations = Inr pathInfo"
  shows "case update eng m (Fin 0) equations stars of
      None \<Rightarrow> negativeCap m
    | Some (Inl e) \<Rightarrow> False
    | Some (Inr (m', stars', result)) \<Rightarrow>
        (if attaches eng m pathInfo
         then (\<forall>info. pathInfo = Some info \<longrightarrow>
                 (let m1 = updateOnPath eng
                             (m\<lparr> onPath := True, currentEquation := Some (equation info) \<rparr>)
                             info (Fin 0)
                  in (onPath m' \<longleftrightarrow> \<not> shouldDetachFromPath eng m1 info)
                     \<and> (isFinite (x_of (velocity m1)) \<and> isFinite (y_of (velocity m1)) \<longrightarrow>
                          position m' = lerp (position m) (closestPoint info) (snapStrength eng))))
         else \<not> onPath m' \<and> currentEquation m' = None
              \<and> (let m2 = updateInAir eng (m\<lparr> onPath := False, currentEquation := None \<rparr>)
                              (Fin 0)
                 in isFinite (x_of (velocity m2)) \<and> isFinite (y_of (velocity m2)) \<longrightarrow>
                      position m' = position m))"
proof -
  obtain ts where ts: "timeScale eng = Fin ts"
    using assms(1) by (meson isFiniteE)
  have sdt: "Fin 0 * timeScale eng = Fin 0"
    by (simp add: ts)
  note u = update_marble [OF assms(2), of "Fin 0" stars, unfolded sdt]
  show ?thesis
  proof (cases "attaches eng m pathInfo")
    case False
    define m2 where "m2 = updateInAir eng (m\<lparr> onPath := False, currentEquation := None \<rparr>) (Fin 0)"
    have p: "position m2 = position m" "\<not> onPath m2" "currentEquation m2 = None"
      by (simp_all add: m2_def)
    have keep: "v_add (position m2) (v_mul (velocity m2) (Fin 0)) = position m"
      if "isFinite (x_of (velocity m2))" "isFinite (y_of (velocity m2))"
      using position_zero_dt [OF that] p by simp
    show ?thesis
      using False keep p
      by (simp add: u stepsBeforeClamp_flags pathState_cases(1) [OF False] m2_def [symmetric]
            Let_def)
  next
    case True
    then obtain info where info: "pathInfo = Some info"
      by (cases pathInfo) (simp_all add: attaches_def)
    define m1 where "m1 = updateOnPath eng
        (m\<lparr> onPath := True, currentEquation := Some (equation info) \<rparr>) info (Fin 0)"
    have p: "position m1 = lerp (position m) (closestPoint info) (snapStrength eng)"
      by (simp add: m1_def updateOnPath_position)
    have keep: "v_add (position m1) (v_mul (velocity m1) (Fin 0)) = position m1"
      if "isFinite (x_of (velocity m1))" "isFinite (y_of (velocity m1))"
      using that by (rule position_zero_dt)
    have o: "onPath m1"
      by (simp add: m1_def)
    show ?thesis
      using True keep o p
      by (simp add: u info stepsBeforeClamp_flags pathState_cases(2) [OF True [unfolded info]]
            m1_def [symmetric] Let_def)
  qed
qed

lemma launch_nearest:
  "findNearestPath default_engine launchedMarble [ConstantY (Fin 2)] = Inr (Some launchInfo)"
proof -
  have h: "derivativeStep default_engine = Fin 0.001" "(0.001::real) \<noteq> 0"
    by (simp_all add: default_engine_def)
  have p: "position launchedMarble = Vector2D (Fin 0) (Fin 2.25)"
    by (simp add: launchedMarble_def Marble_def)
  show ?thesis
    unfolding findNearestPath_def
    by (simp add: analyzePathAtPoint_def p analyzeExplicitY_const [OF h] launchInfo_def)
qed

lemma launch_distance: "sqrt (goldenOffset\<^sup>2 + (2.25 - 2)\<^sup>2) < 0.5"
proof (rule real_less_lsqrt)
  have "goldenOffset\<^sup>2 < 0.0002\<^sup>2"
    using goldenOffset_bounds by (intro power_strict_mono) simp_all
  then show "goldenOffset\<^sup>2 + (2.25 - 2)\<^sup>2 < 0.5\<^sup>2"
    by (simp add: power2_eq_square)
qed simp

lemma launch_attaches: "attaches default_engine launchedMarble (Some launchInfo)"
proof -
  have "js_lt (distance launchInfo) (snapDistance default_engine)"
    using launch_distance by (simp add: launchInfo_def default_engine_fields)
  moreover have "shouldAttachToPath launchedMarble launchInfo"
    by (simp add: shouldAttachToPath_def Let_def launchInfo_def launchedMarble_def Marble_def
          v_normalize_def magnitude_def v_div_def js_eq_def dot_def js_gt_def)
  ultimately show ?thesis
    by (simp add: attaches_def)
qed

lemma launch_stays: "\<not> shouldDetachFromPath default_engine m' launchInfo"
  by (simp add: shouldDetachFromPath_def Let_def atan2_real_def js_gt_def js_or_def js_eq_def
        default_engine_fields launchInfo_def)

lemma launch_updateOnPath:
  defines "m1 \<equiv> updateOnPath default_engine
      (launchedMarble\<lparr> onPath := True, currentEquation := Some (equation launchInfo) \<rparr>)
      launchInfo (Fin 0)"
  shows "isFinite (x_of (velocity m1)) \<and> isFinite (y_of (velocity m1))"
    and "position m1 = Vector2D (Fin (goldenOffset * 0.4)) (Fin 2.15)"
  unfolding m1_def
  by (simp_all add: updateOnPath_def Let_def launchInfo_def launchedMarble_def Marble_def
        default_engine_fields v_normalize_def magnitude_def v_div_def js_eq_def dot_def
        v_mul_def v_add_def lerp_def minus_num_def js_gt_def distanceTo_def)

text \<open>
  A marble launched at \<open>(0, 2.25)\<close>, unattached, above the line \<open>y = 2\<close>: a step with time
  step 0 moves it to height 2.15 and attaches it.
\<close>

theorem zero_dt_counterexample:
  "case update default_engine launchedMarble (Fin 0) [ConstantY (Fin 2)] [] of
     Some (Inr (m', stars', result)) \<Rightarrow>
       position launchedMarble = Vector2D (Fin 0) (Fin 2.25) \<and> \<not> onPath launchedMarble
       \<and> y_of (position m') = Fin 2.15 \<and> onPath m'
   | _ \<Rightarrow> False"
proof -
  have sdt: "Fin 0 * timeScale default_engine = Fin 0"
    by (simp add: default_engine_fields)
  have cap: "\<not> negativeCap launchedMarble"
    by (simp add: negativeCap_def launchedMarble_def Marble_def)
  note u = update_marble [OF launch_nearest, of "Fin 0" "[]", unfolded sdt]
  define m1 where "m1 = updateOnPath default_engine
      (launchedMarble\<lparr> onPath := True, currentEquation := Some (equation launchInfo) \<rparr>)
      launchInfo (Fin 0)"
  have before: "position launchedMarble = Vector2D (Fin 0) (Fin 2.25)" "\<not> onPath launchedMarble"
    by (simp_all add: launchedMarble_def Marble_def)
  have pos: "position m1 = Vector2D (Fin (goldenOffset * 0.4)) (Fin 2.15)"
    unfolding m1_def by (rule launch_updateOnPath(2))
  have "v_add (position m1) (v_mul (velocity m1) (Fin 0)) = position m1"
    using launch_updateOnPath(1) unfolding m1_def by (intro position_zero_dt) simp_all
  then have moved: "v_add (position m1) (v_mul (velocity m1) (Fin 0))
      = Vector2D (Fin (goldenOffset * 0.4)) (Fin 2.15)"
    using pos by simp
  have bound: "onPath m1"
    by (simp add: m1_def)
  show ?thesis
    using before moved bound cap
    by (simp add: u stepsBeforeClamp_flags pathState_cases(2) [OF launch_attaches] Let_def
          launch_stays m1_def [symmetric])
qed

theorem zero_dt_step_witness:
  "isFinite (timeScale default_engine)
   \<and> (case findNearestPath default_engine launchedMarble [ConstantY (Fin 2)] of
        Inr (Some info) \<Rightarrow>
          attaches default_engine launchedMarble (Some info)
          \<and> (let m1 = updateOnPath default_engine
                         (launchedMarble\<lparr> onPath := True,
                            currentEquation := Some (equation info) \<rparr>) info (Fin 0)
             in isFinite (x_of (velocity m1)) \<and> isFinite (y_of (velocity m1)))
          \<and> (case update default_engine launchedMarble (Fin 0) [ConstantY (Fin 2)] [] of
               Some (Inr (m', stars', result)) \<Rightarrow>
                 onPath m'
                 \<and> position m' = lerp (position launchedMarble) (closestPoint info)
                                   (snapStrength default_engine)
             | _ \<Rightarrow> False)
      | _ \<Rightarrow> False)
   \<and> findNearestPath default_engine launchedMarble [] = Inr None
   \<and> \<not> attaches default_engine launchedMarble None
   \<and> (let m2 = updateInAir default_engine
                  (launchedMarble\<lparr> onPath := False, currentEquation := None \<rparr>) (Fin 0)
       in isFinite (x_of (velocity m2)) \<and> isFinite (y_of (velocity m2)))
   \<and> (case update default_engine launchedMarble (Fin 0) [] [] of
        Some (Inr (m', stars', result)) \<Rightarrow>
          position m' = position launchedMarble \<and> \<not> onPath m' \<and> currentEquation m' = None
      | _ \<Rightarrow> False)"
proof -
  have h: "isFinite (timeScale default_engine)"
    by (simp add: default_engine_fields)
  have cap: "\<not> negativeCap launchedMarble"
    by (simp add: negativeCap_def launchedMarble_def Marble_def)
  have none: "findNearestPath default_engine launchedMarble [] = Inr None"
    by (simp add: findNearestPath_def)
  have no: "\<not> attaches default_engine launchedMarble None"
    by (simp add: attaches_def)
  have air: "isFinite (x_of (velocity (updateInAir default_engine
                  (launchedMarble\<lparr> onPath := False, currentEquation := None \<rparr>) (Fin 0))))
       \<and> isFinite (y_of (velocity (updateInAir default_engine
                  (launchedMarble\<lparr> onPath := False, currentEquation := None \<rparr>) (Fin 0))))"
    by (rule updateInAir_zero_dt_finite)
       (simp_all add: default_engine_fields launchedMarble_def Marble_def)
  have u1: "update default_engine launchedMarble (Fin 0) [ConstantY (Fin 2)] [] \<noteq> None"
    and u2: "update default_engine launchedMarble (Fin 0) [] [] \<noteq> None"
    using cap by (simp_all add: update_marble [OF launch_nearest] update_marble [OF none])
  show ?thesis
    using h launch_attaches none no air u1 u2
      zero_dt_step [OF h launch_nearest, of "[]"] zero_dt_step [OF h none, of "[]"]
      launch_updateOnPath(1) launch_stays
    by (simp add: launch_nearest Let_def split: option.splits sum.splits prod.splits)
qed

section \<open>Staying on a constant line\<close>

lemma clampVelocity_finite:
  assumes "isFinite (x_of (velocity m))" and "isFinite (y_of (velocity m))"
    and "isFinite (minVelocity eng)" and "isFinite (gravity eng)"
  shows "isFinite (x_of (velocity (clampVelocity eng m)))
       \<and> isFinite (y_of (velocity (clampVelocity eng m)))"
proof -
  obtain a c mv g where f: "velocity m = Vector2D (Fin a) (Fin c)" "minVelocity eng = Fin mv"
      "gravity eng = Fin g"
    using assms by (cases "velocity m") (auto dest!: isFiniteE)
  show ?thesis
    by (simp add: clampVelocity_def f v_mul_def v_normalize_def v_div_def magnitude_def
          js_eq_def Let_def)
qed

lemma step_at_height_two:
  assumes m: "atHeightTwo m"
  shows "case update (default_engine\<lparr> gravity := Fin g \<rparr>) m (Fin t) [ConstantY (Fin 2)] stars of
      Some (Inr (m', stars', result)) \<Rightarrow>
        onPath m' \<and> currentEquation m' = Some (ConstantY (Fin 2)) \<and> atHeightTwo m'
    | _ \<Rightarrow> False"
proof -
  define eng where "eng = default_engine\<lparr> gravity := Fin g \<rparr>"
  have e: "derivativeStep eng = Fin 0.001" "snapDistance eng = Fin 0.5"
    "maxSlopeAngle eng = Fin (pi / 3)" "snapStrength eng = Fin 0.4" "gravity eng = Fin g"
    "rollingFriction eng = Fin 0.02" "timeScale eng = Fin 0.016" "minVelocity eng = Fin 0.001"
    by (simp_all add: eng_def default_engine_def)
  obtain px vx vy where pos: "position m = Vector2D (Fin px) (Fin 2)"
      and vel: "velocity m = Vector2D (Fin vx) (Fin vy)"
    using m unfolding atHeightTwo_def
    by (cases "position m"; cases "velocity m") (auto dest!: isFiniteE)
  note b = goldenOffset_bounds
  define info where "info = \<lparr> equation = ConstantY (Fin 2),
       closestPoint = Vector2D (Fin (px + goldenOffset)) (Fin 2),
       distance = Fin goldenOffset,
       tangent = Vector2D (Fin 1) (Fin 0), normal = Vector2D (Fin 0) (Fin 1),
       curvature = Fin 0 \<rparr>"
  have near: "findNearestPath eng m [ConstantY (Fin 2)] = Inr (Some info)"
    using b by (simp add: findNearestPath_def analyzePathAtPoint_def pos
          analyzeExplicitY_const [OF e(1)] info_def)
  have att: "attaches eng m (Some info)"
    using b by (simp add: attaches_def shouldAttachToPath_def Let_def info_def e)
  have det: "\<not> shouldDetachFromPath eng m' info" for m'
    by (simp add: shouldDetachFromPath_def Let_def atan2_real_def js_gt_def js_or_def js_eq_def
          e info_def)
  define m0 where "m0 = m\<lparr> onPath := True, currentEquation := Some (equation info) \<rparr>"
  define sdt where "sdt = Fin (t * 0.016)"
  have sdt: "Fin t * timeScale eng = sdt"
    by (simp add: e sdt_def)
  define m1 where "m1 = updateOnPath eng m0 info sdt"
  have close: "\<not> js_gt (distanceTo (lerp (position m0) (closestPoint info) (Fin 0.4))
                        (closestPoint info)) (Fin 0.01)"
    using b by (simp add: m0_def pos info_def lerp_def minus_num_def distanceTo_same_height
          js_gt_def)
  have p1: "position m1 = Vector2D (Fin (px + goldenOffset * 0.4)) (Fin 2)"
    by (simp add: m1_def updateOnPath_position e m0_def pos info_def lerp_def minus_num_def)
  have v1: "isFinite (x_of (velocity m1))" "y_of (velocity m1) = Fin 0"
    using close
    by (simp_all add: m1_def updateOnPath_def Let_def e m0_def vel info_def v_normalize_def
          magnitude_def v_div_def js_eq_def dot_def v_mul_def v_add_def sdt_def)
  then obtain w where w: "velocity m1 = Vector2D (Fin w) (Fin 0)"
    by (cases "velocity m1") (auto dest!: isFiniteE)
  have f1: "onPath m1" "currentEquation m1 = Some (ConstantY (Fin 2))"
    by (simp_all add: m1_def m0_def info_def)
  define m5 where "m5 = fst (stepsBeforeClamp eng m sdt (Some info) stars)"
  have s: "fst (pathState eng m sdt (Some info)) = m1"
    by (simp add: pathState_cases(2) [OF att] Let_def det m0_def [symmetric] m1_def [symmetric])
  have m5a: "onPath m5" "currentEquation m5 = Some (ConstantY (Fin 2))"
    "velocity m5 = Vector2D (Fin w) (Fin 0)"
    "position m5 = v_add (position m1) (v_mul (velocity m1) sdt)"
    by (simp_all add: m5_def stepsBeforeClamp_marble s f1 w)
  have m5p: "position m5 = Vector2D (Fin (px + goldenOffset * 0.4 + w * (t * 0.016))) (Fin 2)"
    unfolding m5a(4) p1 w sdt_def by (simp add: v_add_def v_mul_def)
  note m5 = m5a(1,2,3) m5p
  have cap: "\<not> negativeCap m"
    using m by (simp add: atHeightTwo_def)
  then have cap': "\<not> negativeCap (clampVelocity eng m5)"
    by (simp add: m5_def stepsBeforeClamp_cap)
  have "isFinite (x_of (velocity (clampVelocity eng m5)))
       \<and> isFinite (y_of (velocity (clampVelocity eng m5)))"
    by (rule clampVelocity_finite) (simp_all add: m5 e)
  then have "atHeightTwo (clampVelocity eng m5)"
    using cap' by (simp add: atHeightTwo_def m5)
  then show ?thesis
    using m5(1,2) cap
    unfolding eng_def [symmetric] update_marble [OF near] sdt m5_def [symmetric]
    by simp
qed

lemma tangent_at_height_two:
  assumes "atHeightTwo m"
  shows "case findNearestPath (default_engine\<lparr> gravity := Fin g \<rparr>) m [ConstantY (Fin 2)] of
      Inr (Some info) \<Rightarrow> tangent info = Vector2D (Fin 1) (Fin 0)
    | _ \<Rightarrow> False"
proof -
  have e: "derivativeStep (default_engine\<lparr> gravity := Fin g \<rparr>) = Fin 0.001" "(0.001::real) \<noteq> 0"
    by (simp_all add: default_engine_def)
  obtain px where pos: "position m = Vector2D (Fin px) (Fin 2)"
    using assms unfolding atHeightTwo_def
    by (cases "position m") (auto dest!: isFiniteE)
  show ?thesis
    using goldenOffset_bounds
    by (simp add: findNearestPath_def analyzePathAtPoint_def pos analyzeExplicitY_const [OF e])
qed

lemma frames_at_height_two:
  assumes "atHeightTwo m"
  shows "case frames (default_engine\<lparr> gravity := Fin g \<rparr>) (Fin t) [ConstantY (Fin 2)] (Suc n) m stars of
      Some (Inr (m', stars')) \<Rightarrow>
        onPath m' \<and> currentEquation m' = Some (ConstantY (Fin 2)) \<and> atHeightTwo m'
    | _ \<Rightarrow> False"
  using assms
proof (induction n arbitrary: m stars)
  case 0
  then show ?case
    using step_at_height_two [OF 0, of g t stars]
    by (auto split: option.splits sum.splits)
next
  case (Suc n)
  obtain m1 stars1 r1 where
    u: "update (default_engine\<lparr> gravity := Fin g \<rparr>) m (Fin t) [ConstantY (Fin 2)] stars
          = Some (Inr (m1, stars1, r1))"
    and h: "atHeightTwo m1"
    using step_at_height_two [OF Suc.prems, of g t stars]
    by (auto split: option.splits sum.splits)
  have "frames (default_engine\<lparr> gravity := Fin g \<rparr>) (Fin t) [ConstantY (Fin 2)] (Suc (Suc n)) m stars
      = frames (default_engine\<lparr> gravity := Fin g \<rparr>) (Fin t) [ConstantY (Fin 2)] (Suc n) m1 stars1"
    by (subst frames.simps) (simp add: u)
  then show ?case
    using Suc.IH [OF h, of stars1] by simp
qed

lemma goldenOffset_square: "(px - (px + goldenOffset))\<^sup>2 = goldenOffset\<^sup>2"
  by (simp add: power2_eq_square)

text \<open>
  C5 (amended). For a constant curve and the default derivative step, with coordinates of
  magnitude at most \<open>10\<^sup>6\<close> and a marble within 1 of the line: the closest point has the
  constant of the line as one coordinate, and its other coordinate is within 0.0005 of the
  marble's (the search returns the midpoint of its last interval, not the marble's
  coordinate); the distance is the distance to that point, the tangent is the direction of
  the line, the curvature is 0. On \<open>y = 2\<close> a marble at rest at \<open>(0, 2)\<close> is bound after every
  number of frames with the time step 1 of the game, for every finite gravity, and the
  tangent found at its position is \<open>(1, 0)\<close>.
\<close>

theorem constant_curve_analysis:
  assumes "derivativeStep eng = Fin 0.001"
    and "position m = Vector2D (Fin px) (Fin py)"
    and "\<bar>px\<bar> \<le> 1000000" and "\<bar>py\<bar> \<le> 1000000" and "\<bar>c\<bar> \<le> 1000000"
  shows "(\<bar>py - c\<bar> \<le> 1 \<longrightarrow>
            (\<exists>x. analyzePathAtPoint eng m (ConstantY (Fin c)) =
                   Inr (Some \<lparr> equation = ConstantY (Fin c),
                     closestPoint = Vector2D (Fin x) (Fin c),
                     distance = Fin (sqrt ((px - x)\<^sup>2 + (py - c)\<^sup>2)),
                     tangent = Vector2D (Fin 1) (Fin 0), normal = Vector2D (Fin 0) (Fin 1),
                     curvature = Fin 0 \<rparr>)
                 \<and> \<bar>x - px\<bar> \<le> 0.0005))
     \<and> (\<bar>px - c\<bar> \<le> 1 \<longrightarrow>
            (\<exists>y. analyzePathAtPoint eng m (ConstantX (Fin c)) =
                   Inr (Some \<lparr> equation = ConstantX (Fin c),
                     closestPoint = Vector2D (Fin c) (Fin y),
                     distance = Fin (sqrt ((px - c)\<^sup>2 + (py - y)\<^sup>2)),
                     tangent = Vector2D (Fin 0) (Fin 1), normal = Vector2D (Fin (- 1)) (Fin 0),
                     curvature = Fin 0 \<rparr>)
                 \<and> \<bar>y - py\<bar> \<le> 0.0005))
     \<and> (case frames (default_engine\<lparr> gravity := Fin g \<rparr>) (Fin 1) [ConstantY (Fin 2)]
               (Suc n) marbleOnLine stars of
          Some (Inr (m', stars')) \<Rightarrow>
            onPath m' \<and> currentEquation m' = Some (ConstantY (Fin 2))
            \<and> (case findNearestPath (default_engine\<lparr> gravity := Fin g \<rparr>) m'
                       [ConstantY (Fin 2)] of
                 Inr (Some info) \<Rightarrow> tangent info = Vector2D (Fin 1) (Fin 0)
               | _ \<Rightarrow> False)
        | _ \<Rightarrow> False)"
proof -
  have h: "derivativeStep eng = Fin 0.001" "(0.001::real) \<noteq> 0"
    using assms(1) by simp_all
  have b: "\<bar>goldenOffset\<bar> \<le> 0.0005"
    using goldenOffset_bounds by simp
  have "case frames (default_engine\<lparr> gravity := Fin g \<rparr>) (Fin 1) [ConstantY (Fin 2)]
               (Suc n) marbleOnLine stars of
          Some (Inr (m', stars')) \<Rightarrow>
            onPath m' \<and> currentEquation m' = Some (ConstantY (Fin 2)) \<and> atHeightTwo m'
        | _ \<Rightarrow> False"
    by (rule frames_at_height_two)
       (simp add: atHeightTwo_def marbleOnLine_def Marble_def negativeCap_def)
  then obtain m1 stars1 where
    r: "frames (default_engine\<lparr> gravity := Fin g \<rparr>) (Fin 1) [ConstantY (Fin 2)]
          (Suc n) marbleOnLine stars = Some (Inr (m1, stars1))"
    and bd: "onPath m1" "currentEquation m1 = Some (ConstantY (Fin 2))" "atHeightTwo m1"
    by (auto split: option.splits sum.splits)
  have f: "case frames (default_engine\<lparr> gravity := Fin g \<rparr>) (Fin 1) [ConstantY (Fin 2)]
               (Suc n) marbleOnLine stars of
          Some (Inr (m', stars')) \<Rightarrow>
            onPath m' \<and> currentEquation m' = Some (ConstantY (Fin 2))
            \<and> (case findNearestPath (default_engine\<lparr> gravity := Fin g \<rparr>) m'
                       [ConstantY (Fin 2)] of
                 Inr (Some info) \<Rightarrow> tangent info = Vector2D (Fin 1) (Fin 0)
               | _ \<Rightarrow> False)
        | _ \<Rightarrow> False"
    using bd tangent_at_height_two [OF bd(3), of g]
    unfolding r by simp
  have y: "\<exists>x. analyzePathAtPoint eng m (ConstantY (Fin c)) =
                   Inr (Some \<lparr> equation = ConstantY (Fin c),
                     closestPoint = Vector2D (Fin x) (Fin c),
                     distance = Fin (sqrt ((px - x)\<^sup>2 + (py - c)\<^sup>2)),
                     tangent = Vector2D (Fin 1) (Fin 0), normal = Vector2D (Fin 0) (Fin 1),
                     curvature = Fin 0 \<rparr>)
                 \<and> \<bar>x - px\<bar> \<le> 0.0005"
    using b
    by (intro exI [of _ "px + goldenOffset"])
       (simp add: analyzePathAtPoint_def assms(2) analyzeExplicitY_const [OF h]
          goldenOffset_square)
  have x: "\<exists>y. analyzePathAtPoint eng m (ConstantX (Fin c)) =
                   Inr (Some \<lparr> equation = ConstantX (Fin c),
                     closestPoint = Vector2D (Fin c) (Fin y),
                     distance = Fin (sqrt ((px - c)\<^sup>2 + (py - y)\<^sup>2)),
                     tangent = Vector2D (Fin 0) (Fin 1), normal = Vector2D (Fin (- 1)) (Fin 0),
                     curvature = Fin 0 \<rparr>)
                 \<and> \<bar>y - py\<bar> \<le> 0.0005"
    using b
    by (intro exI [of _ "py + goldenOffset"])
       (simp add: analyzePathAtPoint_def assms(2) analyzeExplicitX_const [OF h]
          goldenOffset_square)
  show ?thesis
    using f x y by blast
qed

theorem constant_curve_analysis_witness:
  "derivativeStep default_engine = Fin 0.001
   \<and> position marbleOnLine = Vector2D (Fin 0) (Fin 2)
   \<and> \<bar>0 :: real\<bar> \<le> 1000000 \<and> \<bar>2 :: real\<bar> \<le> 1000000
   \<and> \<bar>2 - 2 :: real\<bar> \<le> 1 \<and> \<bar>0 - 0 :: real\<bar> \<le> 1
   \<and> (case analyzePathAtPoint default_engine marbleOnLine (ConstantY (Fin 2)) of
        Inr (Some info) \<Rightarrow>
          y_of (closestPoint info) = Fin 2 \<and> js_le (distance info) (Fin 0.0005)
          \<and> tangent info = Vector2D (Fin 1) (Fin 0) \<and> curvature info = Fin 0
      | _ \<Rightarrow> False)
   \<and> (case analyzePathAtPoint default_engine marbleOnLine (ConstantX (Fin 0)) of
        Inr (Some info) \<Rightarrow>
          x_of (closestPoint info) = Fin 0 \<and> js_le (distance info) (Fin 0.0005)
          \<and> tangent info = Vector2D (Fin 0) (Fin 1) \<and> curvature info = Fin 0
      | _ \<Rightarrow> False)"
proof -
  have h: "derivativeStep default_engine = Fin 0.001"
    "position marbleOnLine = Vector2D (Fin 0) (Fin 2)"
    by (simp_all add: default_engine_def marbleOnLine_def Marble_def)
  have r: "\<bar>0 :: real\<bar> \<le> 1000000" "\<bar>2 :: real\<bar> \<le> 1000000"
    by simp_all
  show ?thesis
    using h
      constant_curve_analysis [OF h r(1) r(2) r(2), where g = 0 and n = 0 and stars = "[]"]
      constant_curve_analysis [OF h r(1) r(2) r(1), where g = 0 and n = 0 and stars = "[]"]
    by (auto simp add: real_sqrt_abs abs_minus_commute)
qed

text \<open>
  The closest point on \<open>y = 2\<close> for the marble at \<open>(0, 2)\<close> is not its perpendicular
  projection \<open>(0, 2)\<close>.
\<close>

theorem constant_closest_point_counterexample:
  "case analyzePathAtPoint default_engine marbleOnLine (ConstantY (Fin 2)) of
     Inr (Some info) \<Rightarrow> closestPoint info \<noteq> Vector2D (Fin 0) (Fin 2)
   | _ \<Rightarrow> False"
proof -
  have h: "derivativeStep default_engine = Fin 0.001" "(0.001::real) \<noteq> 0"
    "position marbleOnLine = Vector2D (Fin 0) (Fin 2)"
    by (simp_all add: default_engine_def marbleOnLine_def Marble_def)
  show ?thesis
    using goldenOffset_bounds
    by (simp add: analyzePathAtPoint_def h analyzeExplicitY_const [OF h(1,2)])
qed

end
